theory Spec2Isabelle
  imports Complex_Main "HOL-Library.AList"
begin

section \<open>Values\<close>

text \<open>
  Guest numbers are IEEE doubles in the source. The model keeps the three special values
  apart and represents a finite double by the rational it denotes; the sign of zero is
  not modelled.
\<close>

datatype jsnum = NaN | PosInf | NegInf | Fin rat

text \<open>
  The double nearest to a rational, as the host computes it when it converts a numeral or
  rounds the exact result of an operation: 53 significant bits, ties to the even
  significand, the least exponent -1074, and infinity from \<open>2^1024\<close> on.
  \<open>bitLength n\<close> is the number of binary digits of \<open>n\<close> and \<open>floorLog2 x\<close> the
  exponent \<open>l\<close> with \<open>2^l \<le> x < 2^(l+1)\<close>, for positive \<open>x\<close>.
\<close>

function bitLength :: "int \<Rightarrow> nat" where
  "bitLength n = (if n \<le> 0 then 0 else Suc (bitLength (n div 2)))"
  by pat_completeness auto

termination bitLength
  by (relation "measure nat") auto

declare bitLength.simps [simp del]

definition pow2 :: "int \<Rightarrow> rat" where
  "pow2 k = (if 0 \<le> k then 2 ^ nat k else 1 / 2 ^ nat (- k))"

definition floorLog2 :: "rat \<Rightarrow> int" where
  "floorLog2 x =
     (let k = int (bitLength (fst (quotient_of x))) - int (bitLength (snd (quotient_of x)))
      in if pow2 k \<le> x then k else k - 1)"

definition roundPositive :: "rat \<Rightarrow> jsnum" where
  "roundPositive x =
     (let l = floorLog2 x;
          e = max (l - 52) (- 1074);
          y = x / pow2 e;
          q = \<lfloor>y\<rfloor>;
          r = y - of_int q;
          z = of_int (if 1 / 2 < r \<or> (r = 1 / 2 \<and> odd q) then q + 1 else q) * pow2 e
      in if l < 1023 then Fin z else if pow2 1024 \<le> z then PosInf else Fin z)"

definition roundDouble :: "rat \<Rightarrow> jsnum" where
  "roundDouble x =
     (if x = 0 then Fin 0
      else if 0 < x then roundPositive x
      else (case roundPositive (- x) of Fin z \<Rightarrow> Fin (- z) | PosInf \<Rightarrow> NegInf | y \<Rightarrow> y))"

text \<open>
  Exceptions of the host, thrown by the lexer or by the interpreter's own code (not
  catchable by the interpreted program).
\<close>

datatype error =
    SyntaxError nat string
  | HostTypeError string
  | HostReferenceError string
  | HostError string

text \<open>
  Everything a variable of the interpreter can hold: the guest values (primitives are
  native values, objects are instances of \<open>Interpreter.Object\<close>, here a handle into
  the store), the markers \<open>Interpreter.SCOPE_REFERENCE\<close> and
  \<open>Interpreter.VALUE_IN_DESCRIPTOR\<close>, and the native two-element array
  \<open>[base, name]\<close> that the step functions use as a reference.
\<close>

datatype val =
    Undefined
  | Null
  | Bool bool
  | Num jsnum
  | Str string
  | Obj nat
  | SCOPE_REFERENCE
  | VALUE_IN_DESCRIPTOR
  | Reference val val

text \<open>The host's \<open>typeof\<close>, truthiness and \<open>===\<close> on these values.\<close>

fun typeof :: "val \<Rightarrow> string" where
  "typeof Undefined = ''undefined''"
| "typeof Null = ''object''"
| "typeof (Bool b) = ''boolean''"
| "typeof (Num n) = ''number''"
| "typeof (Str s) = ''string''"
| "typeof (Obj h) = ''object''"
| "typeof SCOPE_REFERENCE = ''object''"
| "typeof VALUE_IN_DESCRIPTOR = ''object''"
| "typeof (Reference b n) = ''object''"

fun truthy :: "val \<Rightarrow> bool" where
  "truthy Undefined = False"
| "truthy Null = False"
| "truthy (Bool b) = b"
| "truthy (Num n) = (n \<noteq> NaN \<and> n \<noteq> Fin 0)"
| "truthy (Str s) = (s \<noteq> [])"
| "truthy (Obj h) = True"
| "truthy SCOPE_REFERENCE = True"
| "truthy VALUE_IN_DESCRIPTOR = True"
| "truthy (Reference b n) = True"

fun strictEq :: "val \<Rightarrow> val \<Rightarrow> bool" where
  "strictEq (Num a) (Num b) = (a \<noteq> NaN \<and> a = b)"
| "strictEq a b = (a = b)"

fun isArray :: "val \<Rightarrow> bool" where
  "isArray (Reference b n) = True"
| "isArray v = False"

text \<open>Decimal digits of a natural number, as \<open>String(n)\<close> prints them.\<close>

fun showNat :: "nat \<Rightarrow> string" where
  "showNat n = (if n < 10 then [char_of (48 + n)] else showNat (n div 10) @ [char_of (48 + n mod 10)])"

declare showNat.simps [simp del]

text \<open>
  \<open>x >>> 0\<close> on a number (ToUint32), and ToNumber on a string of decimal digits: the
  double nearest to \<open>decimalValue\<close>. For other strings ToNumber belongs to the host and
  is a parameter below.
\<close>

definition toUint32 :: "jsnum \<Rightarrow> nat" where
  "toUint32 x =
     (case x of
        Fin r \<Rightarrow> nat ((if r < 0 then - \<lfloor>- r\<rfloor> else \<lfloor>r\<rfloor>) mod 2 ^ 32)
      | _ \<Rightarrow> 0)"

definition allDigits :: "string \<Rightarrow> bool" where
  "allDigits s = (\<forall>c \<in> set s. 48 \<le> (of_char c :: nat) \<and> (of_char c :: nat) \<le> 57)"

definition decimalValue :: "string \<Rightarrow> nat" where
  "decimalValue ds = foldl (\<lambda>acc c. acc * 10 + ((of_char c :: nat) - 48)) 0 ds"

section \<open>Syntax trees\<close>

text \<open>
  The node kinds whose step functions are modelled, each with its \<open>end\<close> offset (0 when
  the node has none, as in polyfill code and in the synthetic call nodes of
  \<open>createGetter_\<close> and \<open>createSetter_\<close>). Every other kind is \<open>OtherNode\<close> with its
  type name and its child nodes. A \<open>VariableDeclarator\<close> carries the name of its \<open>id\<close>
  and its \<open>init\<close>; a function carries the name of its \<open>id\<close>, the names of its \<open>params\<close>
  and its \<open>body\<close>.
\<close>

datatype node =
    Program nat "node list"
  | ExpressionStatement nat node
  | Literal nat val
  | Identifier nat string
  | MemberExpression nat node node bool
  | AssignmentExpression nat string node node
  | CallExpression nat node "node list"
  | NewExpression nat node "node list"
  | SyntheticCall
  | UnaryExpression nat string node
  | BlockStatement nat "node list"
  | ReturnStatement nat "node option"
  | FunctionExpression nat "string option" "string list" node
  | FunctionDeclaration nat string "string list" node
  | VariableDeclaration nat "node list"
  | VariableDeclarator nat string "node option"
  | OtherNode string nat "node list"

fun ntype :: "node \<Rightarrow> string" where
  "ntype (Program e b) = ''Program''"
| "ntype (ExpressionStatement e x) = ''ExpressionStatement''"
| "ntype (Literal e v) = ''Literal''"
| "ntype (Identifier e n) = ''Identifier''"
| "ntype (MemberExpression e ob p c) = ''MemberExpression''"
| "ntype (AssignmentExpression e oper l r) = ''AssignmentExpression''"
| "ntype (CallExpression e c a) = ''CallExpression''"
| "ntype (NewExpression e c a) = ''NewExpression''"
| "ntype SyntheticCall = ''CallExpression''"
| "ntype (UnaryExpression e oper a) = ''UnaryExpression''"
| "ntype (BlockStatement e b) = ''BlockStatement''"
| "ntype (ReturnStatement e a) = ''ReturnStatement''"
| "ntype (FunctionExpression e i ps b) = ''FunctionExpression''"
| "ntype (FunctionDeclaration e i ps b) = ''FunctionDeclaration''"
| "ntype (VariableDeclaration e ds) = ''VariableDeclaration''"
| "ntype (VariableDeclarator e n i) = ''VariableDeclarator''"
| "ntype (OtherNode t e cs) = t"

fun nend :: "node \<Rightarrow> nat" where
  "nend (Program e b) = e"
| "nend (ExpressionStatement e x) = e"
| "nend (Literal e v) = e"
| "nend (Identifier e n) = e"
| "nend (MemberExpression e ob p c) = e"
| "nend (AssignmentExpression e oper l r) = e"
| "nend (CallExpression e c a) = e"
| "nend (NewExpression e c a) = e"
| "nend SyntheticCall = 0"
| "nend (UnaryExpression e oper a) = e"
| "nend (BlockStatement e b) = e"
| "nend (ReturnStatement e a) = e"
| "nend (FunctionExpression e i ps b) = e"
| "nend (FunctionDeclaration e i ps b) = e"
| "nend (VariableDeclaration e ds) = e"
| "nend (VariableDeclarator e n i) = e"
| "nend (OtherNode t e cs) = e"


section \<open>Lexer: numeric literals\<close>

text \<open>
  \<open>input.charCodeAt(pos)\<close>: the code unit at \<open>pos\<close>, or NaN (here \<open>None\<close>) past the
  end of the input. Every comparison with NaN is false in the source.
\<close>

definition charCodeAt :: "string \<Rightarrow> nat \<Rightarrow> nat option" where
  "charCodeAt input pos = (if pos < length input then Some (of_char (input ! pos)) else None)"

text \<open>
  \<open>isIdentifierStart(code)\<close>; the regular expression for the code units from 0xaa on is
  a parameter.
\<close>

definition isIdentifierStart :: "(nat \<Rightarrow> bool) \<Rightarrow> nat option \<Rightarrow> bool" where
  "isIdentifierStart nonASCIIidentifierStart c =
     (case c of
        None \<Rightarrow> False
      | Some code \<Rightarrow>
          if code < 65 then code = 36
          else if code < 91 then True
          else if code < 97 then code = 95
          else if code < 123 then True
          else code \<ge> 0xaa \<and> nonASCIIidentifierStart code)"

text \<open>The digit value \<open>val\<close> computed in the loop of \<open>readInt\<close>; \<open>None\<close> is Infinity.\<close>

definition digitVal :: "nat option \<Rightarrow> nat option" where
  "digitVal c =
     (case c of
        None \<Rightarrow> None
      | Some code \<Rightarrow>
          if code \<ge> 97 then Some (code - 97 + 10)
          else if code \<ge> 65 then Some (code - 65 + 10)
          else if code \<ge> 48 \<and> code \<le> 57 then Some (code - 48)
          else None)"

text \<open>
  \<open>total * radix + val\<close> in the host's arithmetic: the product is rounded, then the sum.
  \<open>total\<close> is never negative and never NaN, and an infinite \<open>total\<close> stays infinite.
\<close>

definition accumulate :: "jsnum \<Rightarrow> nat \<Rightarrow> nat \<Rightarrow> jsnum" where
  "accumulate tot radix v =
     (case tot of
        Fin t \<Rightarrow>
          (case roundDouble (t * of_nat radix) of
             Fin m \<Rightarrow> roundDouble (m + of_nat v)
           | y \<Rightarrow> y)
      | y \<Rightarrow> y)"

text \<open>
  The loop of \<open>readInt(radix, len)\<close>, run for at most \<open>fuel\<close> iterations where \<open>fuel\<close>
  is the number of code units left (each iteration that does not break consumes one).
  The bound \<open>e\<close> is \<open>None\<close> for Infinity. Returns the new \<open>tokPos\<close> and \<open>total\<close>.
\<close>

fun readInt_loop :: "string \<Rightarrow> nat \<Rightarrow> nat option \<Rightarrow> nat \<Rightarrow> nat \<Rightarrow> nat \<Rightarrow> jsnum \<Rightarrow> nat \<times> jsnum" where
  "readInt_loop input radix e 0 i tokPos tot = (tokPos, tot)"
| "readInt_loop input radix e (Suc fuel) i tokPos tot =
     (if (case e of None \<Rightarrow> True | Some b \<Rightarrow> i < b) then
        (case digitVal (charCodeAt input tokPos) of
           None \<Rightarrow> (tokPos, tot)
         | Some v \<Rightarrow>
             if v \<ge> radix then (tokPos, tot)
             else readInt_loop input radix e fuel (i + 1) (tokPos + 1) (accumulate tot radix v))
      else (tokPos, tot))"

text \<open>\<open>readInt(radix, len)\<close>: \<open>None\<close> is the source's \<open>null\<close>.\<close>

definition readInt :: "string \<Rightarrow> nat \<Rightarrow> nat option \<Rightarrow> nat \<Rightarrow> jsnum option \<times> nat" where
  "readInt input radix len tokPos =
     (let start = tokPos;
          (tokPos', tot) = readInt_loop input radix len (Suc (length input - tokPos)) 0 tokPos (Fin 0)
      in if tokPos' = start \<or> (case len of None \<Rightarrow> False | Some l \<Rightarrow> tokPos' - start \<noteq> l)
         then (None, tokPos') else (Some tot, tokPos'))"

text \<open>
  The host's \<open>parseInt(str, radix)\<close> on a string of digits below the radix, and
  \<open>parseFloat(str)\<close> on the decimal literals the lexer hands to it: the longest prefix
  of the shape digits, optional fraction, optional exponent. Both return the double
  nearest to the number that the numeral denotes.
\<close>

definition isDigit :: "char \<Rightarrow> bool" where
  "isDigit c = (48 \<le> (of_char c :: nat) \<and> (of_char c :: nat) \<le> 57)"

definition digitsValue :: "nat \<Rightarrow> string \<Rightarrow> nat" where
  "digitsValue radix ds = foldl (\<lambda>acc c. acc * radix + ((of_char c :: nat) - 48)) 0 ds"

definition parseInt :: "string \<Rightarrow> nat \<Rightarrow> jsnum" where
  "parseInt str radix =
     (let ds = takeWhile (\<lambda>c. isDigit c \<and> (of_char c :: nat) - 48 < radix) str
      in if ds = [] then NaN else roundDouble (of_nat (digitsValue radix ds)))"

definition parseFloat :: "string \<Rightarrow> jsnum" where
  "parseFloat str =
     (let ip = takeWhile isDigit str;
          r1 = dropWhile isDigit str;
          fp = (case r1 of c # r \<Rightarrow> if c = CHR ''.'' then takeWhile isDigit r else [] | [] \<Rightarrow> []);
          r2 = (case r1 of c # r \<Rightarrow> if c = CHR ''.'' then dropWhile isDigit r else r1 | [] \<Rightarrow> []);
          mant = (of_nat (digitsValue 10 (ip @ fp)) :: rat) / 10 ^ length fp;
          ex = (case r2 of
                  c # r \<Rightarrow>
                    if c = CHR ''e'' \<or> c = CHR ''E'' then
                      (case r of
                         s # r' \<Rightarrow>
                           if s = CHR ''-'' \<and> takeWhile isDigit r' \<noteq> []
                             then - int (digitsValue 10 (takeWhile isDigit r'))
                           else if s = CHR ''+'' \<and> takeWhile isDigit r' \<noteq> []
                             then int (digitsValue 10 (takeWhile isDigit r'))
                           else int (digitsValue 10 (takeWhile isDigit r))
                       | [] \<Rightarrow> 0)
                    else 0
                | [] \<Rightarrow> 0)
      in if ip = [] \<and> fp = [] then NaN
         else roundDouble (if ex \<ge> 0 then mant * 10 ^ nat ex else mant / 10 ^ nat (- ex)))"

text \<open>
  \<open>readNumber(startsWithDot)\<close>. The lexer variables it reads are arguments (\<open>input\<close>,
  \<open>tokPos\<close>, \<open>strict\<close>); the result is the raised error or the token value handed to
  \<open>finishToken(_num, val)\<close> together with the new \<open>tokPos\<close>.
\<close>

definition readNumber :: "(nat \<Rightarrow> bool) \<Rightarrow> string \<Rightarrow> bool \<Rightarrow> nat \<Rightarrow> bool \<Rightarrow> error + (jsnum \<times> nat)" where
  "readNumber nonASCII input strict tokPos startsWithDot =
     (let start = tokPos;
          octal = (charCodeAt input tokPos = Some 48);
          (r0, p0) = (if \<not> startsWithDot then readInt input 10 None tokPos else (Some (Fin 0), tokPos))
      in if \<not> startsWithDot \<and> r0 = None then Inl (SyntaxError start ''Invalid number'')
         else
           let (isFloat1, p1) =
                 (if charCodeAt input p0 = Some 46
                  then (True, snd (readInt input 10 None (p0 + 1)))
                  else (False, p0));
               next = charCodeAt input p1
           in if next = Some 69 \<or> next = Some 101 then
                (let next' = charCodeAt input (p1 + 1);
                     p2 = (if next' = Some 43 \<or> next' = Some 45 then p1 + 2 else p1 + 1);
                     (r3, p3) = readInt input 10 None p2
                 in if r3 = None then Inl (SyntaxError start ''Invalid number'')
                    else if isIdentifierStart nonASCII (charCodeAt input p3)
                      then Inl (SyntaxError p3 ''Identifier directly after number'')
                    else Inr (parseFloat (take (p3 - start) (drop start input)), p3))
              else if isIdentifierStart nonASCII (charCodeAt input p1)
                then Inl (SyntaxError p1 ''Identifier directly after number'')
              else
                let str = take (p1 - start) (drop start input)
                in if isFloat1 then Inr (parseFloat str, p1)
                   else if \<not> octal \<or> length str = 1 then Inr (parseInt str 10, p1)
                   else if (\<exists>c \<in> set str. c = CHR ''8'' \<or> c = CHR ''9'') \<or> strict
                     then Inl (SyntaxError start ''Invalid number'')
                   else Inr (parseInt str 8, p1))"

text \<open>
  What may follow a numeric literal for the token to end there: the end of the input, or
  a character that is no digit and does not start an identifier (so no exponent mark
  either).
\<close>

definition tokenEnd :: "(nat \<Rightarrow> bool) \<Rightarrow> string \<Rightarrow> bool" where
  "tokenEnd nonASCII rest =
     (case rest of
        [] \<Rightarrow> True
      | c # r \<Rightarrow> \<not> isDigit c \<and> \<not> isIdentifierStart nonASCII (Some (of_char c)))"

section \<open>Objects, frames and the interpreter state\<close>

text \<open>
  One entry of the native table \<open>obj.properties\<close>: the value with the attribute bits
  that \<open>Object.defineProperty\<close> keeps for it.
\<close>

record property =
  pvalue :: val
  configurable :: bool
  enumerable :: bool
  writable :: bool

text \<open>
  A descriptor object as \<open>setProperty\<close> receives it; a field is \<open>None\<close> when the key is
  not \<open>in\<close> the descriptor.
\<close>

record descriptor =
  d_configurable :: "bool option"
  d_enumerable :: "bool option"
  d_writable :: "bool option"
  d_value :: "val option"
  d_get :: "val option"
  d_set :: "val option"

definition READONLY_DESCRIPTOR :: descriptor where
  "READONLY_DESCRIPTOR = \<lparr>d_configurable = Some True, d_enumerable = Some True,
     d_writable = Some False, d_value = None, d_get = None, d_set = None\<rparr>"

definition NONENUMERABLE_DESCRIPTOR :: descriptor where
  "NONENUMERABLE_DESCRIPTOR = \<lparr>d_configurable = Some True, d_enumerable = Some False,
     d_writable = Some True, d_value = None, d_get = None, d_set = None\<rparr>"

definition VARIABLE_DESCRIPTOR :: descriptor where
  "VARIABLE_DESCRIPTOR = \<lparr>d_configurable = Some False, d_enumerable = Some True,
     d_writable = Some True, d_value = None, d_get = None, d_set = None\<rparr>"

text \<open>
  \<open>Interpreter.Object\<close>, with the fields that functions and scopes add to it. The
  tables are association lists in insertion order. \<open>oclass\<close> is the field \<open>class\<close>.
\<close>

record obj =
  proto :: val
  properties :: "(string \<times> property) list"
  getter :: "(string \<times> val) list"
  setter :: "(string \<times> val) list"
  oclass :: string
  data :: val
  preventExtensions :: bool
  isGetter :: bool
  illegalConstructor :: bool
  funcNode :: "node option"
  parentScope :: "nat option"
  strict :: bool
  nativeFunc :: "nat option"
  asyncFunc :: "nat option"
  isEval :: bool

text \<open>\<open>new Interpreter.Object(proto)\<close>.\<close>

definition newObject :: "val \<Rightarrow> obj" where
  "newObject p = \<lparr>proto = p, properties = [], getter = [], setter = [], oclass = ''Object'',
     data = Null, preventExtensions = False, isGetter = False, illegalConstructor = False,
     funcNode = None, parentScope = None, strict = False, nativeFunc = None,
     asyncFunc = None, isEval = False\<rparr>"

datatype ctype = BREAK | CONTINUE | RETURN | THROW

record completion =
  c_type :: ctype
  c_value :: val
  c_label :: "string option"

datatype dcallee = DC_unset | DC_1 | DC_2 | DC_true

text \<open>
  \<open>Interpreter.State\<close>: a frame of the state stack with the fields the step functions
  attach to it (\<open>fdone\<close> is \<open>done\<close>, \<open>fvalue\<close> is \<open>value\<close>, and the trailing
  underscore of a private field is written as a prime: \<open>n'\<close> is \<open>n_\<close>); \<open>extra\<close> holds
  the fields of the step functions that are not modelled.
\<close>

record frame =
  node :: node
  scope :: nat
  fdone :: bool
  fvalue :: val
  components :: bool
  n' :: nat
  done' :: bool
  doneLeft' :: bool
  doneRight' :: bool
  doneGetter' :: bool
  leftReference' :: val
  leftValue' :: val
  doneSetter' :: val
  doneCallee' :: dcallee
  func' :: val
  funcThis' :: val
  arguments' :: "val list"
  doneArgs' :: bool
  doneExec' :: bool
  isConstructor :: bool
  directEval' :: bool
  doneObject' :: bool
  doneProperty' :: bool
  object' :: val
  init' :: bool
  cv :: "completion option"
  labels :: "string list option"
  isLoop :: bool
  isSwitch :: bool
  throwValue :: val
  extra :: "(string \<times> val) list"

text \<open>\<open>new Interpreter.State(node, scope)\<close>.\<close>

definition newState :: "node \<Rightarrow> nat \<Rightarrow> frame" where
  "newState nd sc = \<lparr>node = nd, scope = sc, fdone = False, fvalue = Undefined,
     components = False, n' = 0, done' = False, doneLeft' = False, doneRight' = False,
     doneGetter' = False, leftReference' = Undefined, leftValue' = Undefined,
     doneSetter' = Undefined, doneCallee' = DC_unset, func' = Undefined,
     funcThis' = Undefined, arguments' = [], doneArgs' = False, doneExec' = False,
     isConstructor = False, directEval' = False, doneObject' = False,
     doneProperty' = False, object' = Undefined, init' = False, cv = None, labels = None,
     isLoop = False, isSwitch = False, throwValue = Undefined, extra = []\<rparr>"

datatype errclass =
    ERROR | EVAL_ERROR | RANGE_ERROR | REFERENCE_ERROR | SYNTAX_ERROR | TYPE_ERROR | URI_ERROR

text \<open>
  The interpreter object. The store \<open>heap\<close> gives every \<open>Interpreter.Object\<close> its
  handle. \<open>stateStack\<close> is kept with its top first: the head of the list is
  \<open>stack[stack.length - 1]\<close> and the last element is the root frame \<open>stack[0]\<close>.
  \<open>ivalue\<close> is the field \<open>value\<close> and \<open>paused'\<close> is \<open>paused_\<close>. \<open>invocations\<close> is not a field of the source: it
  records, in order, each native or asynchronous function that a call expression
  invokes, with its \<open>this\<close> and arguments.
\<close>

record interp =
  heap :: "obj list"
  stateStack :: "frame list"
  paused' :: bool
  ivalue :: val
  global :: nat
  OBJECT :: nat
  OBJECT_PROTO :: nat
  FUNCTION :: nat
  FUNCTION_PROTO :: nat
  ARRAY :: nat
  ARRAY_PROTO :: nat
  STRING :: nat
  NUMBER :: nat
  BOOLEAN :: nat
  REGEXP :: nat
  errorClass :: "errclass \<Rightarrow> nat"
  invocations :: "(nat \<times> val \<times> val list) list"

text \<open>
  What a piece of interpreter code does: it returns, it throws, or it never comes back.
  A throw is either a call of \<open>throwException\<close> (whose effects, the creation of the error
  object and the unwinding of the stack, are applied by \<open>step\<close> where the resulting
  \<open>STEP_ERROR\<close> is caught) or an exception of the host.
\<close>

datatype exn =
    GuestError errclass string
  | GuestValue val
  | HostThrow error

datatype 'a outcome = Ret 'a interp | Throw exn interp | Diverge

text \<open>
  The host: whether the interpreter's own code runs in strict mode, the host conversions
  and operators that are not modelled, the native and asynchronous functions behind the
  function identifiers (an asynchronous function that calls its callback before it
  returns does so on the state it returns), and the step functions of the node types
  that are not modelled.
\<close>

datatype host = Host
  (hostStrict: bool)
  (hostObjectToString: "obj list \<Rightarrow> nat \<Rightarrow> string")
  (hostNumberToString: "rat \<Rightarrow> string")
  (hostStringToNumber: "string \<Rightarrow> jsnum")
  (hostObjectToNumber: "obj list \<Rightarrow> val \<Rightarrow> jsnum")
  (hostBinary: "string \<Rightarrow> val \<Rightarrow> val \<Rightarrow> val")
  (hostUnary: "string \<Rightarrow> val \<Rightarrow> val")
  (nativeCall: "nat \<Rightarrow> val \<Rightarrow> val list \<Rightarrow> interp \<Rightarrow> val outcome")
  (asyncCall: "nat \<Rightarrow> val \<Rightarrow> val list \<Rightarrow> interp \<Rightarrow> interp")
  (otherStep: "interp \<Rightarrow> frame \<Rightarrow> node \<Rightarrow> frame option outcome")


section \<open>The native property table\<close>

text \<open>
  \<open>obj.properties\<close> is a native object without prototype, so the host's own rules for
  reading, assigning, deleting and defining a property apply to it. A failed assignment
  or deletion throws a TypeError only when the code doing it is strict-mode code;
  \<open>Object.defineProperty\<close> throws in both modes.
\<close>

datatype 'a native = NOk 'a | NTypeError

definition propIn :: "string \<Rightarrow> (string \<times> property) list \<Rightarrow> bool" where
  "propIn name props = (map_of props name \<noteq> None)"

definition propRead :: "(string \<times> property) list \<Rightarrow> string \<Rightarrow> val" where
  "propRead props name = (case map_of props name of None \<Rightarrow> Undefined | Some p \<Rightarrow> pvalue p)"

definition tableRead :: "(string \<times> val) list \<Rightarrow> string \<Rightarrow> val" where
  "tableRead tab name = (case map_of tab name of None \<Rightarrow> Undefined | Some v \<Rightarrow> v)"

definition propAssign ::
  "bool \<Rightarrow> (string \<times> property) list \<Rightarrow> string \<Rightarrow> val \<Rightarrow> (string \<times> property) list native" where
  "propAssign strictCode props name v =
     (case map_of props name of
        None \<Rightarrow> NOk (AList.update name
                  \<lparr>pvalue = v, configurable = True, enumerable = True, writable = True\<rparr> props)
      | Some p \<Rightarrow>
          if writable p then NOk (AList.update name (p\<lparr>pvalue := v\<rparr>) props)
          else if strictCode then NTypeError
          else NOk props)"

definition propDelete ::
  "bool \<Rightarrow> (string \<times> property) list \<Rightarrow> string \<Rightarrow> (string \<times> property) list native" where
  "propDelete strictCode props name =
     (case map_of props name of
        None \<Rightarrow> NOk props
      | Some p \<Rightarrow>
          if configurable p then NOk (AList.delete name props)
          else if strictCode then NTypeError
          else NOk props)"

text \<open>The descriptor that \<open>setProperty\<close> builds for \<open>Object.defineProperty\<close>.\<close>

record ndescriptor =
  nd_configurable :: "bool option"
  nd_enumerable :: "bool option"
  nd_writable :: "bool option"
  nd_value :: "val option"

definition applyDescriptor :: "ndescriptor \<Rightarrow> property \<Rightarrow> property" where
  "applyDescriptor d p =
     \<lparr>pvalue = (case nd_value d of None \<Rightarrow> pvalue p | Some v \<Rightarrow> v),
      configurable = (case nd_configurable d of None \<Rightarrow> configurable p | Some b \<Rightarrow> b),
      enumerable = (case nd_enumerable d of None \<Rightarrow> enumerable p | Some b \<Rightarrow> b),
      writable = (case nd_writable d of None \<Rightarrow> writable p | Some b \<Rightarrow> b)\<rparr>"

definition propDefine ::
  "(string \<times> property) list \<Rightarrow> string \<Rightarrow> ndescriptor \<Rightarrow> (string \<times> property) list native" where
  "propDefine props name d =
     (case map_of props name of
        None \<Rightarrow>
          NOk (AList.update name
                 (applyDescriptor d
                    \<lparr>pvalue = Undefined, configurable = False, enumerable = False,
                     writable = False\<rparr>) props)
      | Some p \<Rightarrow>
          if \<not> configurable p \<and>
             (nd_configurable d = Some True
              \<or> (case nd_enumerable d of None \<Rightarrow> False | Some e \<Rightarrow> e \<noteq> enumerable p)
              \<or> (\<not> writable p \<and>
                  (nd_writable d = Some True
                   \<or> (case nd_value d of None \<Rightarrow> False | Some v \<Rightarrow> v \<noteq> pvalue p))))
          then NTypeError
          else NOk (AList.update name (applyDescriptor d p) props))"


section \<open>The object model\<close>

definition getObj :: "interp \<Rightarrow> nat \<Rightarrow> obj" where
  "getObj s h = heap s ! h"

definition putObj :: "interp \<Rightarrow> nat \<Rightarrow> obj \<Rightarrow> interp" where
  "putObj s h ob = s\<lparr>heap := (heap s)[h := ob]\<rparr>"

text \<open>
  \<open>String(x)\<close>. An integer below \<open>2^53\<close> in absolute value is printed with all its
  digits; the digits of every other finite number are the host's.
  \<open>Interpreter.Object.prototype.toString\<close> is modelled for objects that are neither
  arrays nor errors and hold a primitive or no \<open>data\<close>; the rest is the host's.
\<close>

definition numberToString :: "host \<Rightarrow> jsnum \<Rightarrow> string" where
  "numberToString H x =
     (case x of
        NaN \<Rightarrow> ''NaN''
      | PosInf \<Rightarrow> ''Infinity''
      | NegInf \<Rightarrow> ''-Infinity''
      | Fin r \<Rightarrow>
          if r = of_int \<lfloor>r\<rfloor> \<and> \<bar>r\<bar> < 2 ^ 53
          then (if r < 0 then ''-'' else '''') @ showNat (nat \<bar>\<lfloor>r\<rfloor>\<bar>)
          else hostNumberToString H r)"

fun ToString :: "host \<Rightarrow> obj list \<Rightarrow> val \<Rightarrow> string" where
  "ToString H hp Undefined = ''undefined''"
| "ToString H hp Null = ''null''"
| "ToString H hp (Bool b) = (if b then ''true'' else ''false'')"
| "ToString H hp (Num x) = numberToString H x"
| "ToString H hp (Str s) = s"
| "ToString H hp (Obj h) =
     (let ob = hp ! h in
      if oclass ob = ''Array'' \<or> oclass ob = ''Error'' then hostObjectToString H hp h
      else case data ob of
             Null \<Rightarrow> ''[object '' @ oclass ob @ '']''
           | Undefined \<Rightarrow> ''undefined''
           | Bool b \<Rightarrow> (if b then ''true'' else ''false'')
           | Num x \<Rightarrow> numberToString H x
           | Str s \<Rightarrow> s
           | _ \<Rightarrow> hostObjectToString H hp h)"
| "ToString H hp SCOPE_REFERENCE = ''[object Object]''"
| "ToString H hp VALUE_IN_DESCRIPTOR = ''[object Object]''"
| "ToString H hp (Reference b n) = ToString H hp b @ '','' @ ToString H hp n"

text \<open>\<open>Number(x)\<close>; strings of decimal digits are converted here, other strings and objects by the host.\<close>

definition ToNumber :: "host \<Rightarrow> obj list \<Rightarrow> val \<Rightarrow> jsnum" where
  "ToNumber H hp x =
     (case x of
        Undefined \<Rightarrow> NaN
      | Null \<Rightarrow> Fin 0
      | Bool b \<Rightarrow> Fin (if b then 1 else 0)
      | Num n \<Rightarrow> n
      | Str s \<Rightarrow> if allDigits s then roundDouble (of_nat (decimalValue s)) else hostStringToNumber H s
      | _ \<Rightarrow> hostObjectToNumber H hp x)"

text \<open>
  \<open>Interpreter.legalArrayLength\<close> and \<open>Interpreter.legalArrayIndex\<close>; \<open>None\<close> is NaN.
  The index test compares \<open>String(n)\<close> with the name, and \<open>String(n)\<close> is always the
  decimal numeral of \<open>n\<close>: for a name that is not a string of digits the comparison fails
  whatever number the host converts the name to, so that number is taken as NaN.
\<close>

definition legalArrayLength :: "host \<Rightarrow> obj list \<Rightarrow> val \<Rightarrow> nat option" where
  "legalArrayLength H hp x =
     (let n = toUint32 (ToNumber H hp x)
      in if Fin (of_nat n) = ToNumber H hp x then Some n else None)"

definition legalArrayIndex :: "string \<Rightarrow> nat option" where
  "legalArrayIndex x =
     (let n = toUint32 (if allDigits x then roundDouble (of_nat (decimalValue x)) else NaN)
      in if showNat n = x \<and> int n \<noteq> 0xffffffff then Some n else None)"

text \<open>\<open>obj.proto\<close> and \<open>obj.isObject\<close> read on an arbitrary value, and \<open>getPrototype\<close>.\<close>

definition protoField :: "interp \<Rightarrow> val \<Rightarrow> val" where
  "protoField s v = (case v of Obj h \<Rightarrow> proto (getObj s h) | _ \<Rightarrow> Undefined)"

definition isObject :: "val \<Rightarrow> bool" where
  "isObject v = (case v of Obj h \<Rightarrow> True | _ \<Rightarrow> False)"

definition getPrototype :: "interp \<Rightarrow> val \<Rightarrow> val" where
  "getPrototype s v =
     (case v of
        Num n \<Rightarrow> propRead (properties (getObj s (NUMBER s))) ''prototype''
      | Bool b \<Rightarrow> propRead (properties (getObj s (BOOLEAN s))) ''prototype''
      | Str x \<Rightarrow> propRead (properties (getObj s (STRING s))) ''prototype''
      | _ \<Rightarrow> if truthy v then protoField s v else Null)"

text \<open>
  The loops that climb a prototype chain run on fuel: the number of objects in the store
  plus two is enough for every chain without a cycle, and on a cyclic chain the source
  does not return, which is \<open>None\<close>.
\<close>

fun isa_loop :: "nat \<Rightarrow> interp \<Rightarrow> val \<Rightarrow> val \<Rightarrow> bool option" where
  "isa_loop 0 s child p = None"
| "isa_loop (Suc fuel) s child p =
     (if truthy child then
        (if strictEq child p then Some True else isa_loop fuel s (protoField s child) p)
      else Some False)"

definition chainFuel :: "interp \<Rightarrow> nat" where
  "chainFuel s = length (heap s) + 2"

definition isa :: "interp \<Rightarrow> val \<Rightarrow> nat \<Rightarrow> bool option" where
  "isa s child constructor =
     (if child = Null \<or> child = Undefined then Some False
      else
        let p = propRead (properties (getObj s constructor)) ''prototype''
        in if strictEq child p then Some True
           else isa_loop (chainFuel s) s (getPrototype s child) p)"

text \<open>\<open>getter.isGetter = flag\<close>: an assignment to a field of whatever value \<open>getter\<close> is.\<close>

definition setIsGetter :: "host \<Rightarrow> interp \<Rightarrow> val \<Rightarrow> bool \<Rightarrow> unit outcome" where
  "setIsGetter H s g flag =
     (case g of
        Obj h \<Rightarrow> Ret () (putObj s h ((getObj s h)\<lparr>isGetter := flag\<rparr>))
      | SCOPE_REFERENCE \<Rightarrow> Ret () s
      | VALUE_IN_DESCRIPTOR \<Rightarrow> Ret () s
      | Reference b n \<Rightarrow> Ret () s
      | _ \<Rightarrow> if hostStrict H then Throw (HostThrow (HostTypeError ''Cannot create property isGetter'')) s
             else Ret () s)"

fun getProperty_loop :: "nat \<Rightarrow> host \<Rightarrow> interp \<Rightarrow> val \<Rightarrow> string \<Rightarrow> val outcome" where
  "getProperty_loop 0 H s ob name = Diverge"
| "getProperty_loop (Suc fuel) H s ob name =
     (let up = (let p = getPrototype s ob
                in if truthy p then getProperty_loop fuel H s p name else Ret Undefined s)
      in case ob of
           Obj h \<Rightarrow>
             if propIn name (properties (getObj s h)) then
               (let g = tableRead (getter (getObj s h)) name
                in if truthy g then
                     (case setIsGetter H s g True of
                        Ret u s1 \<Rightarrow> Ret g s1
                      | Throw e s1 \<Rightarrow> Throw e s1
                      | Diverge \<Rightarrow> Diverge)
                   else Ret (propRead (properties (getObj s h)) name) s)
             else up
         | _ \<Rightarrow> up)"

definition getProperty :: "host \<Rightarrow> interp \<Rightarrow> val \<Rightarrow> val \<Rightarrow> val outcome" where
  "getProperty H s ob name0 =
     (let name = ToString H (heap s) name0 in
      if ob = Undefined \<or> ob = Null then
        Throw (GuestError TYPE_ERROR
                 (''Cannot read property '' @ [CHR 0x27] @ name @ [CHR 0x27] @ '' of ''
                  @ ToString H (heap s) ob)) s
      else if name = ''length'' then
        (case isa s ob (STRING s) of
           None \<Rightarrow> Diverge
         | Some True \<Rightarrow> Ret (Num (Fin (of_nat (length (ToString H (heap s) ob))))) s
         | Some False \<Rightarrow> getProperty_loop (chainFuel s) H s ob name)
      else if (case name of [] \<Rightarrow> False | c # cs \<Rightarrow> (of_char c :: nat) < 0x40) then
        (case isa s ob (STRING s) of
           None \<Rightarrow> Diverge
         | Some True \<Rightarrow>
             (case legalArrayIndex name of
                Some n \<Rightarrow>
                  if n < length (ToString H (heap s) ob)
                  then Ret (Str [ToString H (heap s) ob ! n]) s
                  else getProperty_loop (chainFuel s) H s ob name
              | None \<Rightarrow> getProperty_loop (chainFuel s) H s ob name)
         | Some False \<Rightarrow> getProperty_loop (chainFuel s) H s ob name)
      else getProperty_loop (chainFuel s) H s ob name)"

fun hasProperty_loop :: "nat \<Rightarrow> interp \<Rightarrow> val \<Rightarrow> string \<Rightarrow> bool option" where
  "hasProperty_loop 0 s ob name = None"
| "hasProperty_loop (Suc fuel) s ob name =
     (let up = (let p = getPrototype s ob
                in if truthy p then hasProperty_loop fuel s p name else Some False)
      in case ob of
           Obj h \<Rightarrow> if propIn name (properties (getObj s h)) then Some True else up
         | _ \<Rightarrow> up)"

definition hasProperty :: "host \<Rightarrow> interp \<Rightarrow> val \<Rightarrow> val \<Rightarrow> bool outcome" where
  "hasProperty H s ob name0 =
     (if ob = Undefined \<or> ob = Null then
        Throw (HostThrow (HostTypeError ''Cannot read property isObject of undefined or null'')) s
      else if \<not> isObject ob then
        Throw (HostThrow (HostTypeError ''Primitive data type has no properties'')) s
      else
        let name = ToString H (heap s) name0 in
        case isa s ob (STRING s) of
          None \<Rightarrow> Diverge
        | Some str \<Rightarrow>
            if name = ''length'' \<and> str then Ret True s
            else if str \<and> (case legalArrayIndex name of
                               Some n \<Rightarrow> n < length (ToString H (heap s) ob)
                             | None \<Rightarrow> False)
              then Ret True s
            else (case hasProperty_loop (chainFuel s) s ob name of
                    None \<Rightarrow> Diverge
                  | Some b \<Rightarrow> Ret b s))"

text \<open>
  \<open>getScope\<close>: the scope of the top frame; on an empty stack the read of \<open>.scope\<close> fails
  in the host.
\<close>

definition getScope :: "interp \<Rightarrow> nat outcome" where
  "getScope s =
     (case stateStack s of
        [] \<Rightarrow> Throw (HostThrow (HostTypeError ''Cannot read property scope of undefined'')) s
      | f # fs \<Rightarrow> Ret (scope f) s)"

text \<open>Comparison and maximum of numbers, as \<open><\<close> and \<open>Math.max\<close> compute them.\<close>

fun numLess :: "jsnum \<Rightarrow> jsnum \<Rightarrow> bool" where
  "numLess NaN y = False"
| "numLess x NaN = False"
| "numLess (Fin a) (Fin b) = (a < b)"
| "numLess (Fin a) PosInf = True"
| "numLess NegInf (Fin b) = True"
| "numLess NegInf PosInf = True"
| "numLess x y = False"

definition mathMax :: "jsnum \<Rightarrow> jsnum \<Rightarrow> jsnum" where
  "mathMax x y = (if x = NaN \<or> y = NaN then NaN else if numLess x y then y else x)"

text \<open>
  The part of \<open>setProperty\<close> for objects of class Array. The loop over the table's
  enumerable keys deletes the elements from the new length on; a native \<open>delete\<close> that
  throws is not caught. The result is the new table and the (possibly converted) value.
\<close>

fun truncateArray ::
  "bool \<Rightarrow> nat \<Rightarrow> string list \<Rightarrow> (string \<times> property) list \<Rightarrow> (string \<times> property) list native" where
  "truncateArray sc v [] props = NOk props"
| "truncateArray sc v (k # ks) props =
     (case legalArrayIndex k of
        Some i \<Rightarrow>
          if v \<le> i then
            (case propDelete sc props k of
               NOk props1 \<Rightarrow> truncateArray sc v ks props1
             | NTypeError \<Rightarrow> NTypeError)
          else truncateArray sc v ks props
      | None \<Rightarrow> truncateArray sc v ks props)"

definition enumerableKeys :: "(string \<times> property) list \<Rightarrow> string list" where
  "enumerableKeys props = map fst (filter (\<lambda>kp. enumerable (snd kp)) props)"

datatype arrayStep = ArrOk "(string \<times> property) list" val | ArrRangeError | ArrHostError

definition setPropertyArray ::
  "host \<Rightarrow> obj list \<Rightarrow> (string \<times> property) list \<Rightarrow> string \<Rightarrow> val \<Rightarrow> arrayStep" where
  "setPropertyArray H hp props name v =
     (let len = propRead props ''length'' in
      if name = ''length'' then
        (case legalArrayLength H hp v of
           None \<Rightarrow> ArrRangeError
         | Some v1 \<Rightarrow>
             if numLess (Fin (of_nat v1)) (ToNumber H hp len) then
               (case truncateArray (hostStrict H) v1 (enumerableKeys props) props of
                  NOk props1 \<Rightarrow> ArrOk props1 (Num (Fin (of_nat v1)))
                | NTypeError \<Rightarrow> ArrHostError)
             else ArrOk props (Num (Fin (of_nat v1))))
      else
        (case legalArrayIndex name of
           Some i \<Rightarrow>
             (case propAssign (hostStrict H) props ''length''
                     (Num (mathMax (ToNumber H hp len) (Fin (of_nat (i + 1))))) of
                NOk props1 \<Rightarrow> ArrOk props1 v
              | NTypeError \<Rightarrow> ArrHostError)
         | None \<Rightarrow> ArrOk props v))"

text \<open>
  The search for \<open>defObj\<close>, the object on the prototype chain that defines the property
  (or the object itself). \<open>name in defObj.properties\<close> on a value without a table throws
  in the host.
\<close>

fun findDefObj :: "nat \<Rightarrow> interp \<Rightarrow> val \<Rightarrow> val \<Rightarrow> string \<Rightarrow> val outcome" where
  "findDefObj 0 s ob defObj name = Diverge"
| "findDefObj (Suc fuel) s ob defObj name =
     (case defObj of
        Obj h \<Rightarrow>
          if propIn name (properties (getObj s h)) then Ret defObj s
          else
            (let p = getPrototype s defObj
             in if \<not> truthy p then Ret ob s else findDefObj fuel s ob p name)
      | _ \<Rightarrow> Throw (HostThrow (HostTypeError ''Cannot use in operator on undefined'')) s)"

text \<open>The branch of \<open>setProperty\<close> that defines the property from a descriptor.\<close>

definition setPropertyDefine ::
  "host \<Rightarrow> interp \<Rightarrow> nat \<Rightarrow> string \<Rightarrow> val \<Rightarrow> descriptor \<Rightarrow> val outcome" where
  "setPropertyDefine H s h name v d =
     (let ob0 = getObj s h;
          ob1 = (case d_get d of
                   None \<Rightarrow> ob0
                 | Some g \<Rightarrow>
                     if truthy g then ob0\<lparr>getter := AList.update name g (getter ob0)\<rparr>
                     else ob0\<lparr>getter := AList.delete name (getter ob0)\<rparr>);
          ob2 = (case d_set d of
                   None \<Rightarrow> ob1
                 | Some g \<Rightarrow>
                     if truthy g then ob1\<lparr>setter := AList.update name g (setter ob1)\<rparr>
                     else ob1\<lparr>setter := AList.delete name (setter ob1)\<rparr>);
          clear = (d_writable d \<noteq> None \<or> d_value d \<noteq> None \<or> v \<noteq> VALUE_IN_DESCRIPTOR);
          ob3 = (if clear
                 then ob2\<lparr>getter := AList.delete name (getter ob2),
                          setter := AList.delete name (setter ob2)\<rparr>
                 else ob2);
          nd = \<lparr>nd_configurable = d_configurable d, nd_enumerable = d_enumerable d,
                nd_writable = d_writable d,
                nd_value = (case d_value d of
                              Some x \<Rightarrow> Some x
                            | None \<Rightarrow> if v \<noteq> VALUE_IN_DESCRIPTOR then Some v else None)\<rparr>
      in case propDefine (properties ob3) name nd of
           NOk props1 \<Rightarrow> Ret Undefined (putObj s h (ob3\<lparr>properties := props1\<rparr>))
         | NTypeError \<Rightarrow>
             Throw (GuestError TYPE_ERROR (''Cannot redefine property: '' @ name)) (putObj s h ob3))"

text \<open>The branch of \<open>setProperty\<close> that assigns the value.\<close>

definition setPropertyAssign ::
  "host \<Rightarrow> interp \<Rightarrow> bool \<Rightarrow> nat \<Rightarrow> string \<Rightarrow> val \<Rightarrow> val outcome" where
  "setPropertyAssign H s strictScope h name v =
     (if v = VALUE_IN_DESCRIPTOR then Throw (HostThrow (HostReferenceError ''Value not specified.'')) s
      else
        case findDefObj (chainFuel s) s (Obj h) (Obj h) name of
          Diverge \<Rightarrow> Diverge
        | Throw e s1 \<Rightarrow> Throw e s1
        | Ret defObj s1 \<Rightarrow>
            (let dh = (case defObj of Obj x \<Rightarrow> x | _ \<Rightarrow> h) in
             if truthy (tableRead (setter (getObj s dh)) name)
               then Ret (tableRead (setter (getObj s dh)) name) s
             else if truthy (tableRead (getter (getObj s dh)) name) then
               (if strictScope then
                  Throw (GuestError TYPE_ERROR
                     (''Cannot set property '' @ [CHR 0x27] @ name @ [CHR 0x27] @ '' of object ''
                      @ [CHR 0x27] @ ToString H (heap s) (Obj h) @ [CHR 0x27]
                      @ '' which only has a getter'')) s
                else Ret Undefined s)
             else
               (case propAssign (hostStrict H) (properties (getObj s h)) name v of
                  NOk props1 \<Rightarrow> Ret Undefined (putObj s h ((getObj s h)\<lparr>properties := props1\<rparr>))
                | NTypeError \<Rightarrow>
                    if strictScope then
                      Throw (GuestError TYPE_ERROR
                         (''Cannot assign to read only property '' @ [CHR 0x27] @ name @ [CHR 0x27]
                          @ '' of object '' @ [CHR 0x27] @ ToString H (heap s) (Obj h)
                          @ [CHR 0x27])) s
                    else Ret Undefined s)))"

text \<open>
  \<open>setProperty(obj, name, value, opt_descriptor)\<close>. The result is the setter function to
  call, or \<open>undefined\<close>.
\<close>

definition setProperty ::
  "host \<Rightarrow> interp \<Rightarrow> val \<Rightarrow> val \<Rightarrow> val \<Rightarrow> descriptor option \<Rightarrow> val outcome" where
  "setProperty H s ob name0 v0 opt_descriptor =
     (let name = ToString H (heap s) name0 in
      if ob = Undefined \<or> ob = Null then
        Throw (GuestError TYPE_ERROR
                 (''Cannot set property '' @ [CHR 0x27] @ name @ [CHR 0x27] @ '' of ''
                  @ ToString H (heap s) ob)) s
      else if (case opt_descriptor of
                 None \<Rightarrow> False
               | Some d \<Rightarrow> (d_get d \<noteq> None \<or> d_set d \<noteq> None)
                           \<and> (d_value d \<noteq> None \<or> d_writable d \<noteq> None)) then
        Throw (GuestError TYPE_ERROR
                 (''Invalid property descriptor. ''
                  @ ''Cannot both specify accessors and a value or writable attribute'')) s
      else
        case getScope s of
          Diverge \<Rightarrow> Diverge
        | Throw e s1 \<Rightarrow> Throw e s1
        | Ret sc s1 \<Rightarrow>
            (let strictScope = strict (getObj s sc) in
             case ob of
               Obj h \<Rightarrow>
                 (case isa s ob (STRING s) of
                    None \<Rightarrow> Diverge
                  | Some str \<Rightarrow>
                      if str \<and> (name = ''length''
                                 \<or> (case legalArrayIndex name of
                                       Some n \<Rightarrow> n < length (ToString H (heap s) ob)
                                     | None \<Rightarrow> False)) then
                        (if strictScope then
                           Throw (GuestError TYPE_ERROR
                              (''Cannot assign to read only property '' @ [CHR 0x27] @ name
                               @ [CHR 0x27] @ '' of String '' @ [CHR 0x27]
                               @ ToString H (heap s) (data (getObj s h)) @ [CHR 0x27])) s
                         else Ret Undefined s)
                      else
                        (case (if oclass (getObj s h) = ''Array''
                               then setPropertyArray H (heap s) (properties (getObj s h)) name v0
                               else ArrOk (properties (getObj s h)) v0) of
                           ArrRangeError \<Rightarrow> Throw (GuestError RANGE_ERROR ''Invalid array length'') s
                         | ArrHostError \<Rightarrow>
                             Throw (HostThrow (HostTypeError ''Cannot delete or assign property'')) s
                         | ArrOk props1 v \<Rightarrow>
                             (let s2 = putObj s h ((getObj s h)\<lparr>properties := props1\<rparr>) in
                              if preventExtensions (getObj s2 h) \<and> \<not> propIn name props1 then
                                (if strictScope then
                                   Throw (GuestError TYPE_ERROR
                                      (''Can'' @ [CHR 0x27] @ ''t add property '' @ [CHR 0x27] @ name
                                       @ [CHR 0x27] @ '', object is not extensible'')) s2
                                 else Ret Undefined s2)
                              else
                                (case opt_descriptor of
                                   Some d \<Rightarrow> setPropertyDefine H s2 h name v d
                                 | None \<Rightarrow> setPropertyAssign H s2 strictScope h name v))))
             | _ \<Rightarrow>
                 if strictScope then
                   Throw (GuestError TYPE_ERROR
                      (''Can'' @ [CHR 0x27] @ ''t create property '' @ [CHR 0x27] @ name
                       @ [CHR 0x27] @ '' on '' @ [CHR 0x27] @ ToString H (heap s) ob @ [CHR 0x27])) s
                 else Ret Undefined s))"


section \<open>Creating objects, throwing and unwinding\<close>

text \<open>Allocation of a new \<open>Interpreter.Object\<close>: the next free handle.\<close>

definition allocObject :: "interp \<Rightarrow> obj \<Rightarrow> nat \<times> interp" where
  "allocObject s ob = (length (heap s), s\<lparr>heap := heap s @ [ob]\<rparr>)"

text \<open>
  \<open>createObjectProto(proto)\<close>, in three parts: what follows the creation of the
  \<open>prototype\<close> object of a function (\<open>setFunctionPrototype\<close>), what is done for arrays
  and errors (\<open>finishObject\<close>), and the function itself. The call that creates the
  \<open>prototype\<close> object is recursive; where the recursion does not end the result is
  \<open>None\<close>.
\<close>

definition setFunctionPrototype :: "host \<Rightarrow> nat \<Rightarrow> val outcome \<Rightarrow> val outcome" where
  "setFunctionPrototype H h r =
     (case r of
        Diverge \<Rightarrow> Diverge
      | Throw e s1 \<Rightarrow> Throw e s1
      | Ret pr s1 \<Rightarrow>
          (case setProperty H s1 (Obj h) (Str ''prototype'') pr None of
             Diverge \<Rightarrow> Diverge
           | Throw e s2 \<Rightarrow> Throw e s2
           | Ret u s2 \<Rightarrow> Ret (Obj h) (putObj s2 h ((getObj s2 h)\<lparr>oclass := ''Function''\<rparr>))))"

definition finishObject :: "host \<Rightarrow> nat \<Rightarrow> val outcome \<Rightarrow> val outcome" where
  "finishObject H h r =
     (case r of
        Diverge \<Rightarrow> Diverge
      | Throw e s1 \<Rightarrow> Throw e s1
      | Ret ob s1 \<Rightarrow>
          (case isa s1 (Obj h) (ARRAY s1) of
             None \<Rightarrow> Diverge
           | Some arr \<Rightarrow>
               (case (if arr
                      then (case setProperty H s1 (Obj h) (Str ''length'') (Num (Fin 0))
                                   (Some \<lparr>d_configurable = Some False, d_enumerable = Some False,
                                           d_writable = Some True, d_value = None, d_get = None,
                                           d_set = None\<rparr>) of
                              Ret u s2 \<Rightarrow> Ret u (putObj s2 h ((getObj s2 h)\<lparr>oclass := ''Array''\<rparr>))
                            | Throw e s2 \<Rightarrow> Throw e s2
                            | Diverge \<Rightarrow> Diverge)
                      else Ret Undefined s1) of
                  Diverge \<Rightarrow> Diverge
                | Throw e s2 \<Rightarrow> Throw e s2
                | Ret u s2 \<Rightarrow>
                    (case isa s2 (Obj h) (errorClass s2 ERROR) of
                       None \<Rightarrow> Diverge
                     | Some True \<Rightarrow> Ret (Obj h) (putObj s2 h ((getObj s2 h)\<lparr>oclass := ''Error''\<rparr>))
                     | Some False \<Rightarrow> Ret (Obj h) s2))))"

partial_function (option) createObjectProto :: "host \<Rightarrow> interp \<Rightarrow> val \<Rightarrow> val outcome option" where
  "createObjectProto H s p =
     (if isa (snd (allocObject s (newObject p))) (Obj (length (heap s))) (FUNCTION s) = None
      then Some Diverge
      else if isa (snd (allocObject s (newObject p))) (Obj (length (heap s))) (FUNCTION s) = Some True
      then Option.bind
             (createObjectProto H (snd (allocObject s (newObject p))) (Obj (OBJECT_PROTO s)))
             (\<lambda>r. Some (finishObject H (length (heap s)) (setFunctionPrototype H (length (heap s)) r)))
      else Some (finishObject H (length (heap s))
                   (Ret (Obj (length (heap s))) (snd (allocObject s (newObject p))))))"

declare createObjectProto.simps [code]

text \<open>
  \<open>createObject(constructor)\<close>: the prototype is read off \<open>constructor.properties\<close>,
  which the host cannot do on a truthy value that is no object.
\<close>

definition createObject :: "host \<Rightarrow> interp \<Rightarrow> val \<Rightarrow> val outcome" where
  "createObject H s constructor =
     (if \<not> truthy constructor then
        (case createObjectProto H s constructor of None \<Rightarrow> Diverge | Some r \<Rightarrow> r)
      else
        case constructor of
          Obj c \<Rightarrow>
            (case createObjectProto H s (propRead (properties (getObj s c)) ''prototype'') of
               None \<Rightarrow> Diverge
             | Some r \<Rightarrow> r)
        | _ \<Rightarrow> Throw (HostThrow (HostTypeError ''Cannot read property prototype of undefined'')) s)"


section \<open>Scopes\<close>

text \<open>
  \<open>setValueToScope(name, value)\<close>: the loop over the scopes below the global one, then
  the global scope. A native assignment that throws is not caught here.
\<close>

fun setValueToScope_loop ::
  "nat \<Rightarrow> host \<Rightarrow> interp \<Rightarrow> bool \<Rightarrow> nat option \<Rightarrow> string \<Rightarrow> val \<Rightarrow> val outcome" where
  "setValueToScope_loop 0 H s strictScope sc name v = Diverge"
| "setValueToScope_loop (Suc fuel) H s strictScope None name v =
     Throw (GuestError REFERENCE_ERROR (name @ '' is not defined'')) s"
| "setValueToScope_loop (Suc fuel) H s strictScope (Some sc) name v =
     (if sc \<noteq> global s then
        (if propIn name (properties (getObj s sc)) then
           (case propAssign (hostStrict H) (properties (getObj s sc)) name v of
              NOk props1 \<Rightarrow> Ret Undefined (putObj s sc ((getObj s sc)\<lparr>properties := props1\<rparr>))
            | NTypeError \<Rightarrow>
                Throw (HostThrow (HostTypeError ''Cannot assign to read only property'')) s)
         else setValueToScope_loop fuel H s strictScope (parentScope (getObj s sc)) name v)
      else if \<not> strictScope then setProperty H s (Obj sc) (Str name) v None
      else
        (case hasProperty H s (Obj sc) (Str name) of
           Diverge \<Rightarrow> Diverge
         | Throw e s1 \<Rightarrow> Throw e s1
         | Ret True s1 \<Rightarrow> setProperty H s (Obj sc) (Str name) v None
         | Ret False s1 \<Rightarrow> Throw (GuestError REFERENCE_ERROR (name @ '' is not defined'')) s))"

definition setValueToScope :: "host \<Rightarrow> interp \<Rightarrow> string \<Rightarrow> val \<Rightarrow> val outcome" where
  "setValueToScope H s name v =
     (case getScope s of
        Diverge \<Rightarrow> Diverge
      | Throw e s1 \<Rightarrow> Throw e s1
      | Ret sc s1 \<Rightarrow>
          setValueToScope_loop (chainFuel s) H s (strict (getObj s sc)) (Some sc) name v)"

text \<open>\<open>getValueFromScope(name)\<close>.\<close>

fun getValueFromScope_loop :: "nat \<Rightarrow> host \<Rightarrow> interp \<Rightarrow> nat option \<Rightarrow> string \<Rightarrow> val outcome" where
  "getValueFromScope_loop 0 H s sc name = Diverge"
| "getValueFromScope_loop (Suc fuel) H s sc name =
     (let notFound =
            (case stateStack s of
               [] \<Rightarrow> Throw (HostThrow (HostTypeError ''Cannot read property node of undefined'')) s
             | f # fs \<Rightarrow>
                 (case node f of
                    UnaryExpression e oper a \<Rightarrow>
                      if oper = ''typeof'' then Ret Undefined s
                      else Throw (GuestError REFERENCE_ERROR (name @ '' is not defined'')) s
                  | _ \<Rightarrow> Throw (GuestError REFERENCE_ERROR (name @ '' is not defined'')) s))
      in case sc of
           None \<Rightarrow> notFound
         | Some c \<Rightarrow>
             if c \<noteq> global s then
               (if propIn name (properties (getObj s c))
                then Ret (propRead (properties (getObj s c)) name) s
                else getValueFromScope_loop fuel H s (parentScope (getObj s c)) name)
             else
               (case hasProperty H s (Obj c) (Str name) of
                  Diverge \<Rightarrow> Diverge
                | Throw e s1 \<Rightarrow> Throw e s1
                | Ret True s1 \<Rightarrow> getProperty H s (Obj c) (Str name)
                | Ret False s1 \<Rightarrow> notFound))"

definition getValueFromScope :: "host \<Rightarrow> interp \<Rightarrow> string \<Rightarrow> val outcome" where
  "getValueFromScope H s name =
     (case getScope s of
        Diverge \<Rightarrow> Diverge
      | Throw e s1 \<Rightarrow> Throw e s1
      | Ret sc s1 \<Rightarrow> getValueFromScope_loop (chainFuel s) H s (Some sc) name)"

text \<open>\<open>getValue(ref)\<close> and \<open>setValue(ref, value)\<close> on a reference \<open>[base, name]\<close>.\<close>

definition getValue :: "host \<Rightarrow> interp \<Rightarrow> val \<Rightarrow> val outcome" where
  "getValue H s ref =
     (case ref of
        Reference b n \<Rightarrow>
          if b = SCOPE_REFERENCE then getValueFromScope H s (ToString H (heap s) n)
          else getProperty H s b n
      | _ \<Rightarrow> Throw (HostThrow (HostTypeError ''reference expected'')) s)"

definition setValue :: "host \<Rightarrow> interp \<Rightarrow> val \<Rightarrow> val \<Rightarrow> val outcome" where
  "setValue H s ref v =
     (case ref of
        Reference b n \<Rightarrow>
          if b = SCOPE_REFERENCE then setValueToScope H s (ToString H (heap s) n) v
          else setProperty H s b n v None
      | _ \<Rightarrow> Throw (HostThrow (HostTypeError ''reference expected'')) s)"


section \<open>The state stack\<close>

text \<open>
  Assignments to a field of \<open>stack[stack.length - 1]\<close>; on an empty stack the host
  throws.
\<close>

definition updTop :: "(frame \<Rightarrow> frame) \<Rightarrow> interp \<Rightarrow> interp" where
  "updTop g s = (case stateStack s of [] \<Rightarrow> s | f # fs \<Rightarrow> s\<lparr>stateStack := g f # fs\<rparr>)"

definition pop :: "interp \<Rightarrow> interp" where
  "pop s = s\<lparr>stateStack := tl (stateStack s)\<rparr>"

definition setTopValue :: "val \<Rightarrow> interp \<Rightarrow> unit outcome" where
  "setTopValue v s =
     (case stateStack s of
        [] \<Rightarrow> Throw (HostThrow (HostTypeError ''Cannot set property value of undefined'')) s
      | f # fs \<Rightarrow> Ret () (s\<lparr>stateStack := f\<lparr>fvalue := v\<rparr> # fs\<rparr>))"

text \<open>\<open>stack.pop(); stack[stack.length - 1].value = v\<close>, the end of most step functions.\<close>

definition popWithValue :: "val \<Rightarrow> interp \<Rightarrow> frame option outcome" where
  "popWithValue v s =
     (case setTopValue v (pop s) of
        Ret u s1 \<Rightarrow> Ret None s1
      | Throw e s1 \<Rightarrow> Throw e s1
      | Diverge \<Rightarrow> Diverge)"

text \<open>
  The real error that \<open>unwind\<close> throws when no frame handles the completion. Its class
  and message are folded into one text.
\<close>

definition uncaught :: "host \<Rightarrow> interp \<Rightarrow> val \<Rightarrow> unit outcome" where
  "uncaught H s v =
     (case isa s v (errorClass s ERROR) of
        None \<Rightarrow> Diverge
      | Some False \<Rightarrow> Throw (HostThrow (HostError (ToString H (heap s) v))) s
      | Some True \<Rightarrow>
          (case getProperty H s v (Str ''name'') of
             Diverge \<Rightarrow> Diverge
           | Throw e s1 \<Rightarrow> Throw e s1
           | Ret nm s1 \<Rightarrow>
               (case getProperty H s1 v (Str ''message'') of
                  Diverge \<Rightarrow> Diverge
                | Throw e s2 \<Rightarrow> Throw e s2
                | Ret msg s2 \<Rightarrow>
                    Throw (HostThrow (HostError (ToString H (heap s2) nm @ '': ''
                                                 @ ToString H (heap s2) msg))) s2)))"

text \<open>
  \<open>unwind(type, value, label)\<close>, by recursion on the frames: the first argument is the
  part of the stack still to be looked at, top first.
\<close>

fun unwind_loop ::
  "host \<Rightarrow> frame list \<Rightarrow> interp \<Rightarrow> ctype \<Rightarrow> val \<Rightarrow> string option \<Rightarrow> unit outcome" where
  "unwind_loop H [] s ty v label = uncaught H (s\<lparr>stateStack := []\<rparr>) v"
| "unwind_loop H (f # fs) s ty v label =
     (let s0 = s\<lparr>stateStack := f # fs\<rparr> in
      if ntype (node f) = ''TryStatement'' then
        Ret () (s\<lparr>stateStack := f\<lparr>cv := Some \<lparr>c_type = ty, c_value = v, c_label = label\<rparr>\<rparr> # fs\<rparr>)
      else if (ntype (node f) = ''CallExpression'' \<or> ntype (node f) = ''NewExpression'')
              \<and> ty = RETURN then
        Ret () (s\<lparr>stateStack := f\<lparr>fvalue := v\<rparr> # fs\<rparr>)
      else if (ntype (node f) = ''CallExpression'' \<or> ntype (node f) = ''NewExpression'')
              \<and> ty \<noteq> THROW then
        Throw (HostThrow (HostError ''Unsynatctic break/continue not rejected by Acorn'')) s0
      else if ty = BREAK
              \<and> (case label of
                    Some l \<Rightarrow> (case labels f of Some ls \<Rightarrow> l \<in> set ls | None \<Rightarrow> False)
                  | None \<Rightarrow> isLoop f \<or> isSwitch f) then
        Ret () (s\<lparr>stateStack := fs\<rparr>)
      else if ty = CONTINUE
              \<and> (case label of
                    Some l \<Rightarrow> (case labels f of Some ls \<Rightarrow> l \<in> set ls | None \<Rightarrow> False)
                  | None \<Rightarrow> isLoop f) then
        Ret () s0
      else unwind_loop H fs s ty v label)"

definition unwind :: "host \<Rightarrow> interp \<Rightarrow> ctype \<Rightarrow> val \<Rightarrow> string option \<Rightarrow> unit outcome" where
  "unwind H s ty v label = unwind_loop H (stateStack s) s ty v label"

text \<open>
  \<open>throwException(errorClass, opt_message)\<close>: the error object is created, the stack is
  unwound and \<open>STEP_ERROR\<close> is thrown, which \<open>step\<close> catches: the result \<open>Ret\<close> is the
  state in which \<open>step\<close> goes on. When creating the error object throws in its turn, that
  exception replaces the first one.
\<close>

partial_function (option) throwException :: "host \<Rightarrow> exn \<Rightarrow> interp \<Rightarrow> unit outcome option" where
  "throwException H e s =
     (case e of
        HostThrow x \<Rightarrow> Some (Throw e s)
      | GuestValue v \<Rightarrow> Some (unwind H s THROW v None)
      | GuestError cls msg \<Rightarrow>
          (case createObject H s (Obj (errorClass s cls)) of
             Diverge \<Rightarrow> Some Diverge
           | Throw e1 s1 \<Rightarrow> throwException H e1 s1
           | Ret err s1 \<Rightarrow>
               (case setProperty H s1 err (Str ''message'') (Str msg) (Some NONENUMERABLE_DESCRIPTOR) of
                  Diverge \<Rightarrow> Some Diverge
                | Throw e2 s2 \<Rightarrow> throwException H e2 s2
                | Ret u s2 \<Rightarrow> Some (unwind H s2 THROW err None))))"

declare throwException.simps [code]


section \<open>Functions and their scopes\<close>

text \<open>A sequence of interpreter calls that stops at the first one that does not return.\<close>

fun forEach :: "('a \<Rightarrow> interp \<Rightarrow> unit outcome) \<Rightarrow> 'a list \<Rightarrow> interp \<Rightarrow> unit outcome" where
  "forEach g [] s = Ret () s"
| "forEach g (x # xs) s =
     (case g x s of
        Ret u s1 \<Rightarrow> forEach g xs s1
      | Throw e s1 \<Rightarrow> Throw e s1
      | Diverge \<Rightarrow> Diverge)"

definition ignoreResult :: "'a outcome \<Rightarrow> unit outcome" where
  "ignoreResult r = (case r of Ret v s \<Rightarrow> Ret () s | Throw e s \<Rightarrow> Throw e s | Diverge \<Rightarrow> Diverge)"

text \<open>\<open>createFunction(node, scope)\<close>; the number of parameters is passed with the node.\<close>

definition createFunction :: "host \<Rightarrow> interp \<Rightarrow> node \<Rightarrow> nat \<Rightarrow> nat \<Rightarrow> val outcome" where
  "createFunction H s nd nparams sc =
     (case createObjectProto H s (Obj (FUNCTION_PROTO s)) of
        None \<Rightarrow> Diverge
      | Some Diverge \<Rightarrow> Diverge
      | Some (Throw e s1) \<Rightarrow> Throw e s1
      | Some (Ret func s1) \<Rightarrow>
          (case func of
             Obj h \<Rightarrow>
               (let s2 = putObj s1 h ((getObj s1 h)\<lparr>parentScope := Some sc, funcNode := Some nd\<rparr>) in
                case setProperty H s2 func (Str ''length'') (Num (Fin (of_nat nparams)))
                       (Some READONLY_DESCRIPTOR) of
                  Ret u s3 \<Rightarrow> Ret func s3
                | Throw e s3 \<Rightarrow> Throw e s3
                | Diverge \<Rightarrow> Diverge)
           | _ \<Rightarrow> Ret func s1))"

text \<open>
  The child nodes that the loop of \<open>populateScope_\<close> visits (the properties of the node
  that are nodes or arrays of nodes), and \<open>populateScope_\<close> itself.
\<close>

fun children :: "node \<Rightarrow> node list" where
  "children (Program e b) = b"
| "children (ExpressionStatement e x) = [x]"
| "children (Literal e v) = []"
| "children (Identifier e n) = []"
| "children (MemberExpression e ob p c) = [ob, p]"
| "children (AssignmentExpression e oper l r) = [l, r]"
| "children (CallExpression e c a) = c # a"
| "children (NewExpression e c a) = c # a"
| "children SyntheticCall = []"
| "children (UnaryExpression e oper a) = [a]"
| "children (BlockStatement e b) = b"
| "children (ReturnStatement e a) = (case a of None \<Rightarrow> [] | Some x \<Rightarrow> [x])"
| "children (FunctionExpression e i ps b) = [b]"
| "children (FunctionDeclaration e i ps b) = [b]"
| "children (VariableDeclaration e ds) = ds"
| "children (VariableDeclarator e n i) = (case i of None \<Rightarrow> [] | Some x \<Rightarrow> [x])"
| "children (OtherNode t e cs) = cs"

fun declaratorName :: "node \<Rightarrow> string" where
  "declaratorName (VariableDeclarator e n i) = n"
| "declaratorName nd = ''undefined''"

fun populateScope :: "host \<Rightarrow> nat \<Rightarrow> node \<Rightarrow> interp \<Rightarrow> unit outcome"
  and populateScopeList :: "host \<Rightarrow> nat \<Rightarrow> node list \<Rightarrow> interp \<Rightarrow> unit outcome" where
  "populateScope H sc (FunctionDeclaration e name ps b) s =
     (case createFunction H s (FunctionDeclaration e name ps b) (length ps) sc of
        Ret func s1 \<Rightarrow> ignoreResult (setProperty H s1 (Obj sc) (Str name) func (Some VARIABLE_DESCRIPTOR))
      | Throw x s1 \<Rightarrow> Throw x s1
      | Diverge \<Rightarrow> Diverge)"
| "populateScope H sc (FunctionExpression e i ps b) s = Ret () s"
| "populateScope H sc (ExpressionStatement e x) s = Ret () s"
| "populateScope H sc (VariableDeclaration e ds) s =
     (case forEach (\<lambda>d st. ignoreResult
                     (setProperty H st (Obj sc) (Str (declaratorName d)) Undefined
                        (Some VARIABLE_DESCRIPTOR)))
             ds s of
        Ret u s1 \<Rightarrow> populateScopeList H sc ds s1
      | Throw x s1 \<Rightarrow> Throw x s1
      | Diverge \<Rightarrow> Diverge)"
| "populateScope H sc (VariableDeclarator e n i) s =
     (case i of None \<Rightarrow> Ret () s | Some x \<Rightarrow> populateScope H sc x s)"
| "populateScope H sc (Program e b) s = populateScopeList H sc b s"
| "populateScope H sc (BlockStatement e b) s = populateScopeList H sc b s"
| "populateScope H sc (OtherNode t e cs) s = populateScopeList H sc cs s"
| "populateScope H sc (ReturnStatement e a) s =
     (case a of None \<Rightarrow> Ret () s | Some x \<Rightarrow> populateScope H sc x s)"
| "populateScope H sc (MemberExpression e ob p c) s =
     (case populateScope H sc ob s of
        Ret u s1 \<Rightarrow> populateScope H sc p s1
      | Throw x s1 \<Rightarrow> Throw x s1
      | Diverge \<Rightarrow> Diverge)"
| "populateScope H sc (AssignmentExpression e oper l r) s =
     (case populateScope H sc l s of
        Ret u s1 \<Rightarrow> populateScope H sc r s1
      | Throw x s1 \<Rightarrow> Throw x s1
      | Diverge \<Rightarrow> Diverge)"
| "populateScope H sc (CallExpression e c a) s =
     (case populateScope H sc c s of
        Ret u s1 \<Rightarrow> populateScopeList H sc a s1
      | Throw x s1 \<Rightarrow> Throw x s1
      | Diverge \<Rightarrow> Diverge)"
| "populateScope H sc (NewExpression e c a) s =
     (case populateScope H sc c s of
        Ret u s1 \<Rightarrow> populateScopeList H sc a s1
      | Throw x s1 \<Rightarrow> Throw x s1
      | Diverge \<Rightarrow> Diverge)"
| "populateScope H sc (UnaryExpression e oper a) s = populateScope H sc a s"
| "populateScope H sc (Literal e v) s = Ret () s"
| "populateScope H sc (Identifier e n) s = Ret () s"
| "populateScope H sc SyntheticCall s = Ret () s"
| "populateScopeList H sc [] s = Ret () s"
| "populateScopeList H sc (x # xs) s =
     (case populateScope H sc x s of
        Ret u s1 \<Rightarrow> populateScopeList H sc xs s1
      | Throw e s1 \<Rightarrow> Throw e s1
      | Diverge \<Rightarrow> Diverge)"


section \<open>Step functions\<close>

text \<open>\<open>createScope(node, parentScope)\<close> for a scope with a parent.\<close>

definition useStrict :: "node \<Rightarrow> bool" where
  "useStrict nd =
     (case (case nd of Program e b \<Rightarrow> b | BlockStatement e b \<Rightarrow> b | _ \<Rightarrow> []) of
        ExpressionStatement e (Literal e1 v) # rest \<Rightarrow> v = Str ''use strict''
      | _ \<Rightarrow> False)"

definition createScope :: "host \<Rightarrow> interp \<Rightarrow> node \<Rightarrow> nat \<Rightarrow> nat outcome" where
  "createScope H s nd parent =
     (case createObjectProto H s Null of
        None \<Rightarrow> Diverge
      | Some Diverge \<Rightarrow> Diverge
      | Some (Throw e s1) \<Rightarrow> Throw e s1
      | Some (Ret sc s1) \<Rightarrow>
          (let h = (case sc of Obj x \<Rightarrow> x | _ \<Rightarrow> 0);
               s2 = putObj s1 h ((getObj s1 h)\<lparr>parentScope := Some parent\<rparr>)
           in case populateScope H h nd s2 of
                Diverge \<Rightarrow> Diverge
              | Throw e s3 \<Rightarrow> Throw e s3
              | Ret u s3 \<Rightarrow>
                  Ret h (putObj s3 h ((getObj s3 h)\<lparr>strict := strict (getObj s3 parent) \<or> useStrict nd\<rparr>))))"

text \<open>\<open>createGetter_(func, left)\<close> and \<open>createSetter_(func, left, value)\<close>.\<close>

definition createGetter :: "interp \<Rightarrow> val \<Rightarrow> val \<Rightarrow> frame option outcome" where
  "createGetter s func left =
     (case stateStack s of
        [] \<Rightarrow> Throw (HostThrow (HostTypeError ''Cannot read property scope of undefined'')) s
      | f # fs \<Rightarrow>
          Ret (Some ((newState SyntheticCall (scope f))
                 \<lparr>doneCallee' := DC_true,
                  funcThis' := (case left of Reference b n \<Rightarrow> b | _ \<Rightarrow> left),
                  func' := func, doneArgs' := True, arguments' := []\<rparr>)) s)"

definition createSetter :: "interp \<Rightarrow> val \<Rightarrow> val \<Rightarrow> val \<Rightarrow> frame option outcome" where
  "createSetter s func left v =
     (case stateStack s of
        [] \<Rightarrow> Throw (HostThrow (HostTypeError ''Cannot read property scope of undefined'')) s
      | f # fs \<Rightarrow>
          Ret (Some ((newState SyntheticCall (scope f))
                 \<lparr>doneCallee' := DC_true,
                  funcThis' := (case left of Reference b n \<Rightarrow> b | _ \<Rightarrow> Obj (global s)),
                  func' := func, doneArgs' := True, arguments' := [v]\<rparr>)) s)"

text \<open>\<open>value && typeof value === 'object' && value.isGetter\<close>.\<close>

definition flaggedGetter :: "interp \<Rightarrow> val \<Rightarrow> bool" where
  "flaggedGetter s v = (case v of Obj h \<Rightarrow> isGetter (getObj s h) | _ \<Rightarrow> False)"

definition nth_opt :: "'a list \<Rightarrow> nat \<Rightarrow> 'a option" where
  "nth_opt xs i = (if i < length xs then Some (xs ! i) else None)"

definition stepProgram :: "interp \<Rightarrow> frame \<Rightarrow> node list \<Rightarrow> frame option outcome" where
  "stepProgram s state body =
     (case nth_opt body (n' state) of
        Some expression \<Rightarrow>
          Ret (Some (newState expression (scope state)))
              (updTop (\<lambda>f. f\<lparr>fdone := False, n' := n' state + 1\<rparr>) s)
      | None \<Rightarrow> Ret None (updTop (\<lambda>f. f\<lparr>fdone := True\<rparr>) s))"

definition stepBlockStatement :: "interp \<Rightarrow> frame \<Rightarrow> node list \<Rightarrow> frame option outcome" where
  "stepBlockStatement s state body =
     (case nth_opt body (n' state) of
        Some expression \<Rightarrow>
          Ret (Some (newState expression (scope state)))
              (updTop (\<lambda>f. f\<lparr>n' := n' state + 1\<rparr>) s)
      | None \<Rightarrow> Ret None (pop s))"

definition stepExpressionStatement :: "interp \<Rightarrow> frame \<Rightarrow> node \<Rightarrow> frame option outcome" where
  "stepExpressionStatement s state expression =
     (if \<not> done' state then
        Ret (Some (newState expression (scope state))) (updTop (\<lambda>f. f\<lparr>done' := True\<rparr>) s)
      else Ret None ((pop s)\<lparr>ivalue := fvalue state\<rparr>))"

definition stepLiteral :: "interp \<Rightarrow> frame \<Rightarrow> val \<Rightarrow> frame option outcome" where
  "stepLiteral s state v = popWithValue v s"

definition stepFunctionDeclaration :: "interp \<Rightarrow> frame option outcome" where
  "stepFunctionDeclaration s = Ret None (pop s)"

text \<open>\<open>stack[stack.length - 1].value = r\<close> for the result \<open>r\<close> of an interpreter call.\<close>

definition storeTop :: "val outcome \<Rightarrow> frame option outcome" where
  "storeTop r =
     (case r of
        Ret v s1 \<Rightarrow>
          (case setTopValue v s1 of
             Ret u s2 \<Rightarrow> Ret None s2
           | Throw e s2 \<Rightarrow> Throw e s2
           | Diverge \<Rightarrow> Diverge)
      | Throw e s1 \<Rightarrow> Throw e s1
      | Diverge \<Rightarrow> Diverge)"

definition stepFunctionExpression ::
  "host \<Rightarrow> interp \<Rightarrow> frame \<Rightarrow> node \<Rightarrow> nat \<Rightarrow> frame option outcome" where
  "stepFunctionExpression H s state nd nparams =
     storeTop (createFunction H (pop s) nd nparams (scope state))"

text \<open>
  \<open>stepIdentifier\<close>. The loop before the getter call climbs the scopes until one has the
  property; its result is not used, but it can fail.
\<close>

fun identifierScope_loop :: "nat \<Rightarrow> host \<Rightarrow> interp \<Rightarrow> nat option \<Rightarrow> string \<Rightarrow> unit outcome" where
  "identifierScope_loop 0 H s sc name = Diverge"
| "identifierScope_loop (Suc fuel) H s sc name =
     (case hasProperty H s (case sc of Some c \<Rightarrow> Obj c | None \<Rightarrow> Null) (Str name) of
        Diverge \<Rightarrow> Diverge
      | Throw e s1 \<Rightarrow> Throw e s1
      | Ret True s1 \<Rightarrow> Ret () s
      | Ret False s1 \<Rightarrow>
          identifierScope_loop fuel H s
            (case sc of Some c \<Rightarrow> parentScope (getObj s c) | None \<Rightarrow> None) name)"

definition stepIdentifier :: "host \<Rightarrow> interp \<Rightarrow> frame \<Rightarrow> string \<Rightarrow> frame option outcome" where
  "stepIdentifier H s state name =
     (if components state then popWithValue (Reference SCOPE_REFERENCE (Str name)) s
      else
        case getValueFromScope H (pop s) name of
          Diverge \<Rightarrow> Diverge
        | Throw e s1 \<Rightarrow> Throw e s1
        | Ret v s1 \<Rightarrow>
            if flaggedGetter s1 v then
              (case setIsGetter H s1 v False of
                 Diverge \<Rightarrow> Diverge
               | Throw e s2 \<Rightarrow> Throw e s2
               | Ret u s2 \<Rightarrow>
                   (case identifierScope_loop (chainFuel s2) H s2 (Some (scope state)) name of
                      Diverge \<Rightarrow> Diverge
                    | Throw e s3 \<Rightarrow> Throw e s3
                    | Ret u3 s3 \<Rightarrow> createGetter s3 v (Obj (global s3))))
            else storeTop (Ret v s1))"

text \<open>\<open>stepMemberExpression\<close>; \<open>propName\<close> is the name of the property node when the access is not computed.\<close>

definition memberName :: "node \<Rightarrow> val" where
  "memberName p = (case p of Identifier e n \<Rightarrow> Str n | _ \<Rightarrow> Undefined)"

definition stepMemberExpression ::
  "host \<Rightarrow> interp \<Rightarrow> frame \<Rightarrow> node \<Rightarrow> node \<Rightarrow> bool \<Rightarrow> frame option outcome" where
  "stepMemberExpression H s state ob property computed =
     (if \<not> doneObject' state then
        Ret (Some (newState ob (scope state))) (updTop (\<lambda>f. f\<lparr>doneObject' := True\<rparr>) s)
      else if computed \<and> \<not> doneProperty' state then
        Ret (Some (newState property (scope state)))
            (updTop (\<lambda>f. f\<lparr>object' := fvalue state, doneProperty' := True\<rparr>) s)
      else
        let object1 = (if computed then object' state else fvalue state);
            propName = (if computed then fvalue state else memberName property);
            s0 = pop (updTop (\<lambda>f. f\<lparr>object' := object1\<rparr>) s)
        in if components state then storeTop (Ret (Reference object1 propName) s0)
           else
             case getProperty H s0 object1 propName of
               Diverge \<Rightarrow> Diverge
             | Throw e s1 \<Rightarrow> Throw e s1
             | Ret v s1 \<Rightarrow>
                 if flaggedGetter s1 v then
                   (case setIsGetter H s1 v False of
                      Diverge \<Rightarrow> Diverge
                    | Throw e s2 \<Rightarrow> Throw e s2
                    | Ret u s2 \<Rightarrow> createGetter s2 v object1)
                 else storeTop (Ret v s1))"

text \<open>
  \<open>stepAssignmentExpression\<close>. The compound operators compute with the host's
  arithmetic, which is a parameter.
\<close>

definition assignmentOperators :: "string list" where
  "assignmentOperators =
     [''+='', ''-='', ''*='', ''/='', ''%='', ''<<='', ''>>='', ''>>>='', ''&='', ''^='', ''|='']"

definition stepAssignmentExpression ::
  "host \<Rightarrow> interp \<Rightarrow> frame \<Rightarrow> string \<Rightarrow> node \<Rightarrow> node \<Rightarrow> frame option outcome" where
  "stepAssignmentExpression H s state oper left right =
     (if \<not> doneLeft' state then
        Ret (Some ((newState left (scope state))\<lparr>components := True\<rparr>))
            (updTop (\<lambda>f. f\<lparr>doneLeft' := True\<rparr>) s)
      else if \<not> doneRight' state then
        (let st1 = (if \<not> truthy (leftReference' state)
                    then state\<lparr>leftReference' := fvalue state\<rparr> else state);
             st2 = (if doneGetter' st1 then st1\<lparr>leftValue' := fvalue st1\<rparr> else st1);
             s2 = updTop (\<lambda>f. st2) s;
             goRight = (\<lambda>sx. Ret (Some (newState right (scope state)))
                                 (updTop (\<lambda>f. f\<lparr>doneRight' := True\<rparr>) sx))
         in if \<not> doneGetter' st2 \<and> oper \<noteq> ''='' then
              (case getValue H s2 (leftReference' st2) of
                 Diverge \<Rightarrow> Diverge
               | Throw e s3 \<Rightarrow> Throw e s3
               | Ret leftValue s3 \<Rightarrow>
                   (let s4 = updTop (\<lambda>f. f\<lparr>leftValue' := leftValue\<rparr>) s3 in
                    if flaggedGetter s4 leftValue then
                      (case setIsGetter H s4 leftValue False of
                         Diverge \<Rightarrow> Diverge
                       | Throw e s5 \<Rightarrow> Throw e s5
                       | Ret u s5 \<Rightarrow>
                           createGetter (updTop (\<lambda>f. f\<lparr>doneGetter' := True\<rparr>) s5)
                             leftValue (leftReference' st2))
                    else goRight s4))
            else goRight s2)
      else if truthy (doneSetter' state) then popWithValue (doneSetter' state) s
      else if oper \<noteq> ''='' \<and> oper \<notin> set assignmentOperators then
        Throw (HostThrow (SyntaxError 0 (''Unknown assignment expression: '' @ oper))) s
      else
        let v = (if oper = ''='' then fvalue state
                 else hostBinary H (butlast oper) (leftValue' state) (fvalue state))
        in case setValue H s (leftReference' state) v of
             Diverge \<Rightarrow> Diverge
           | Throw e s1 \<Rightarrow> Throw e s1
           | Ret setter1 s1 \<Rightarrow>
               if truthy setter1 then
                 createSetter (updTop (\<lambda>f. f\<lparr>doneSetter' := v\<rparr>) s1) setter1
                   (leftReference' state) v
               else popWithValue v s1)"


text \<open>
  \<open>stepCallExpression\<close> (also \<open>stepNewExpression\<close>), in the order of the source: the
  callee, the value of the function, the arguments and \<open>this\<close>, the execution, and the
  return value. \<open>isNew\<close> is \<open>node.type === 'NewExpression'\<close>; \<open>args\<close> is
  \<open>node.arguments\<close>.
\<close>

definition funcParams :: "node \<Rightarrow> string list" where
  "funcParams nd =
     (case nd of
        FunctionExpression e i ps b \<Rightarrow> ps
      | FunctionDeclaration e i ps b \<Rightarrow> ps
      | _ \<Rightarrow> [])"

definition funcBody :: "node \<Rightarrow> node" where
  "funcBody nd =
     (case nd of
        FunctionExpression e i ps b \<Rightarrow> b
      | FunctionDeclaration e i ps b \<Rightarrow> b
      | _ \<Rightarrow> nd)"

definition funcName :: "node \<Rightarrow> string option" where
  "funcName nd =
     (case nd of
        FunctionExpression e i ps b \<Rightarrow> i
      | FunctionDeclaration e i ps b \<Rightarrow> Some i
      | _ \<Rightarrow> None)"

text \<open>The call of a function of the interpreted program: its scope is built and its body is the next frame.\<close>

definition callGuest ::
  "host \<Rightarrow> interp \<Rightarrow> frame \<Rightarrow> val \<Rightarrow> node \<Rightarrow> nat \<Rightarrow> frame option outcome" where
  "callGuest H s state func fnode parent =
     (case createScope H s (funcBody fnode) parent of
        Diverge \<Rightarrow> Diverge
      | Throw e s1 \<Rightarrow> Throw e s1
      | Ret sc s1 \<Rightarrow>
          (case forEach
                  (\<lambda>(i, paramName) st. ignoreResult
                     (setProperty H st (Obj sc) (Str paramName)
                        (if i < length (arguments' state) then arguments' state ! i else Undefined) None))
                  (zip [0 ..< length (funcParams fnode)] (funcParams fnode)) s1 of
             Diverge \<Rightarrow> Diverge
           | Throw e s2 \<Rightarrow> Throw e s2
           | Ret u s2 \<Rightarrow>
               (case createObjectProto H s2 (Obj (ARRAY_PROTO s2)) of
                  None \<Rightarrow> Diverge
                | Some Diverge \<Rightarrow> Diverge
                | Some (Throw e s3) \<Rightarrow> Throw e s3
                | Some (Ret argsList s3) \<Rightarrow>
                    (case forEach
                            (\<lambda>(i, a) st. ignoreResult
                               (setProperty H st argsList (Num (Fin (of_nat i))) a None))
                            (zip [0 ..< length (arguments' state)] (arguments' state)) s3 of
                       Diverge \<Rightarrow> Diverge
                     | Throw e s4 \<Rightarrow> Throw e s4
                     | Ret u4 s4 \<Rightarrow>
                         (case ignoreResult (setProperty H s4 (Obj sc) (Str ''arguments'') argsList None) of
                            Diverge \<Rightarrow> Diverge
                          | Throw e s5 \<Rightarrow> Throw e s5
                          | Ret u5 s5 \<Rightarrow>
                              (case (case funcName fnode of
                                       Some name \<Rightarrow>
                                         if name \<noteq> [] then
                                           ignoreResult (setProperty H s5 (Obj sc) (Str name) func None)
                                         else Ret () s5
                                     | None \<Rightarrow> Ret () s5) of
                                 Diverge \<Rightarrow> Diverge
                               | Throw e s6 \<Rightarrow> Throw e s6
                               | Ret u6 s6 \<Rightarrow>
                                   (case setProperty H s6 (Obj sc) (Str ''this'') (funcThis' state)
                                           (Some READONLY_DESCRIPTOR) of
                                      Diverge \<Rightarrow> Diverge
                                    | Throw e s7 \<Rightarrow> Throw e s7
                                    | Ret u7 s7 \<Rightarrow>
                                        Ret (Some (newState (funcBody fnode) sc))
                                            (updTop (\<lambda>f. f\<lparr>fvalue := Undefined\<rparr>) s7))))))))"

text \<open>The execution part (\<open>!state.doneExec_\<close>); \<open>state\<close> is the top frame of \<open>s\<close>.\<close>

definition callExec :: "host \<Rightarrow> interp \<Rightarrow> frame \<Rightarrow> node \<Rightarrow> frame option outcome" where
  "callExec H s0 state nd =
     (let s = updTop (\<lambda>f. f\<lparr>doneExec' := True\<rparr>) s0;
          func = func' state
      in case func of
           Obj h \<Rightarrow>
             (case funcNode (getObj s h) of
                Some fnode \<Rightarrow>
                  (case parentScope (getObj s h) of
                     Some parent \<Rightarrow> callGuest H s state func fnode parent
                   | None \<Rightarrow> Throw (HostThrow (HostError ''parentScope required'')) s)
              | None \<Rightarrow>
                  if isEval (getObj s h) then otherStep H s state nd
                  else
                    (case nativeFunc (getObj s h) of
                       Some fid \<Rightarrow>
                         (case nativeCall H fid (funcThis' state) (arguments' state)
                                 (s\<lparr>invocations := invocations s @ [(fid, funcThis' state, arguments' state)]\<rparr>) of
                            Diverge \<Rightarrow> Diverge
                          | Throw e s1 \<Rightarrow> Throw e s1
                          | Ret v s1 \<Rightarrow> Ret None (updTop (\<lambda>f. f\<lparr>fvalue := v\<rparr>) s1))
                     | None \<Rightarrow>
                         (case asyncFunc (getObj s h) of
                            Some fid \<Rightarrow>
                              Ret None
                                (asyncCall H fid (funcThis' state) (arguments' state)
                                   (s\<lparr>paused' := True,
                                      invocations := invocations s @ [(fid, funcThis' state, arguments' state)]\<rparr>))
                          | None \<Rightarrow>
                              Throw (GuestError TYPE_ERROR (oclass (getObj s h) @ '' is not a function'')) s)))
         | _ \<Rightarrow> Throw (GuestError TYPE_ERROR (ToString H (heap s) func @ '' is not a function'')) s)"

text \<open>The arguments and the value of \<open>this\<close> (\<open>!state.doneArgs_\<close>), followed by the execution.\<close>

definition callArgs ::
  "host \<Rightarrow> interp \<Rightarrow> frame \<Rightarrow> node \<Rightarrow> bool \<Rightarrow> node list \<Rightarrow> frame option outcome" where
  "callArgs H s0 state0 nd isNew args =
     (let state1 = (if n' state0 \<noteq> 0
                    then state0\<lparr>arguments' := arguments' state0 @ [fvalue state0]\<rparr> else state0)
      in case nth_opt args (n' state1) of
           Some a \<Rightarrow>
             Ret (Some (newState a (scope state1)))
                 (updTop (\<lambda>f. state1\<lparr>n' := n' state1 + 1\<rparr>) s0)
         | None \<Rightarrow>
             (let s1 = updTop (\<lambda>f. state1) s0;
                  func = func' state1
              in if isNew then
                   (if func = Undefined \<or> func = Null then
                      Throw (HostThrow (HostTypeError ''Cannot read property illegalConstructor of undefined'')) s1
                    else if (case func of Obj h \<Rightarrow> illegalConstructor (getObj s1 h) | _ \<Rightarrow> False) then
                      Throw (GuestError TYPE_ERROR (ToString H (heap s1) func @ '' is not a constructor'')) s1
                    else
                      case createObject H s1 func of
                        Diverge \<Rightarrow> Diverge
                      | Throw e s2 \<Rightarrow> Throw e s2
                      | Ret this1 s2 \<Rightarrow>
                          (let state2 = state1\<lparr>funcThis' := this1, isConstructor := True, doneArgs' := True\<rparr>
                           in callExec H (updTop (\<lambda>f. state2) s2) state2 nd))
                 else
                   (let state2 =
                          (if funcThis' state1 = Undefined
                           then state1\<lparr>funcThis' := (if strict (getObj s1 (scope state1)) then Undefined
                                                        else Obj (global s1))\<rparr>
                           else state1)\<lparr>doneArgs' := True\<rparr>
                    in callExec H (updTop (\<lambda>f. state2) s1) state2 nd)))"

definition stepCallExpression ::
  "host \<Rightarrow> interp \<Rightarrow> frame \<Rightarrow> node \<Rightarrow> bool \<Rightarrow> node \<Rightarrow> node list \<Rightarrow> frame option outcome" where
  "stepCallExpression H s state nd isNew callee args =
     (if doneCallee' state = DC_unset then
        Ret (Some ((newState callee (scope state))\<lparr>components := True\<rparr>))
            (updTop (\<lambda>f. f\<lparr>doneCallee' := DC_1\<rparr>) s)
      else
        let continue =
              (\<lambda>sx stx.
                 if \<not> doneArgs' stx then callArgs H sx stx nd isNew args
                 else if \<not> doneExec' stx then callExec H sx stx nd
                 else if isConstructor stx \<and> typeof (fvalue stx) \<noteq> ''object''
                   then popWithValue (funcThis' stx) sx
                 else popWithValue (fvalue stx) sx)
        in if doneCallee' state = DC_1 then
             (let st1 = state\<lparr>doneCallee' := DC_2\<rparr>;
                  func = fvalue state
              in if isArray func then
                   (case getValue H (updTop (\<lambda>f. st1) s) func of
                      Diverge \<Rightarrow> Diverge
                    | Throw e s1 \<Rightarrow> Throw e s1
                    | Ret fv s1 \<Rightarrow>
                        (let st2 = st1\<lparr>func' := fv\<rparr>;
                             st3 = (case func of
                                      Reference b n \<Rightarrow>
                                        if b = SCOPE_REFERENCE
                                        then st2\<lparr>directEval' := (n = Str ''eval'')\<rparr>
                                        else st2\<lparr>funcThis' := b\<rparr>
                                    | _ \<Rightarrow> st2)
                         in if flaggedGetter s1 fv then
                              (case setIsGetter H s1 fv False of
                                 Diverge \<Rightarrow> Diverge
                               | Throw e s2 \<Rightarrow> Throw e s2
                               | Ret u s2 \<Rightarrow>
                                   createGetter (updTop (\<lambda>f. st3\<lparr>doneCallee' := DC_1\<rparr>) s2) fv (fvalue state))
                            else
                              (let st4 = st3\<lparr>arguments' := [], n' := 0\<rparr>
                               in continue (updTop (\<lambda>f. st4) s1) st4)))
                 else
                   (let st4 = st1\<lparr>func' := func, arguments' := [], n' := 0\<rparr>
                    in continue (updTop (\<lambda>f. st4) s) st4))
           else continue s state)"

text \<open>\<open>stepUnaryExpression\<close>. The operators \<open>-\<close>, \<open>+\<close> and \<open>~\<close> compute with the host's arithmetic.\<close>

definition stepUnaryExpression ::
  "host \<Rightarrow> interp \<Rightarrow> frame \<Rightarrow> string \<Rightarrow> node \<Rightarrow> frame option outcome" where
  "stepUnaryExpression H s state oper argument =
     (if \<not> done' state then
        Ret (Some ((newState argument (scope state))\<lparr>components := (oper = ''delete'')\<rparr>))
            (updTop (\<lambda>f. f\<lparr>done' := True\<rparr>) s)
      else
        let s0 = pop s; v = fvalue state in
        if oper = ''-'' \<or> oper = ''+'' \<or> oper = ''~'' then storeTop (Ret (hostUnary H oper v) s0)
        else if oper = ''!'' then storeTop (Ret (Bool (\<not> truthy v)) s0)
        else if oper = ''delete'' then
          (case v of
             Reference b n \<Rightarrow>
               (let ob = (if b = SCOPE_REFERENCE then Obj (scope state) else b);
                    name = ToString H (heap s0) n
                in case ob of
                     Obj h \<Rightarrow>
                       (case propDelete (hostStrict H) (properties (getObj s0 h)) name of
                          NOk props1 \<Rightarrow>
                            storeTop (Ret (Bool True) (putObj s0 h ((getObj s0 h)\<lparr>properties := props1\<rparr>)))
                        | NTypeError \<Rightarrow>
                            if strict (getObj s0 (scope state)) then
                              Throw (GuestError TYPE_ERROR
                                 (''Cannot delete property '' @ [CHR 0x27] @ name @ [CHR 0x27]
                                  @ '' of '' @ [CHR 0x27] @ ToString H (heap s0) ob @ [CHR 0x27])) s0
                            else storeTop (Ret (Bool False) s0))
                   | _ \<Rightarrow>
                       if strict (getObj s0 (scope state)) then
                         Throw (GuestError TYPE_ERROR
                            (''Cannot delete property '' @ [CHR 0x27] @ name @ [CHR 0x27]
                             @ '' of '' @ [CHR 0x27] @ ToString H (heap s0) ob @ [CHR 0x27])) s0
                       else storeTop (Ret (Bool False) s0))
           | _ \<Rightarrow> storeTop (Ret (Bool True) s0))
        else if oper = ''typeof'' then
          storeTop (Ret (Str (if (case v of Obj h \<Rightarrow> oclass (getObj s0 h) = ''Function'' | _ \<Rightarrow> False)
                              then ''function'' else typeof v)) s0)
        else if oper = ''void'' then storeTop (Ret Undefined s0)
        else Throw (HostThrow (SyntaxError 0 (''Unknown unary operator: '' @ oper))) s0)"

definition stepReturnStatement ::
  "host \<Rightarrow> interp \<Rightarrow> frame \<Rightarrow> node option \<Rightarrow> frame option outcome" where
  "stepReturnStatement H s state argument =
     (case (if done' state then None else argument) of
        Some a \<Rightarrow> Ret (Some (newState a (scope state))) (updTop (\<lambda>f. f\<lparr>done' := True\<rparr>) s)
      | None \<Rightarrow>
          (case unwind H s RETURN (fvalue state) None of
             Ret u s1 \<Rightarrow> Ret None s1
           | Throw e s1 \<Rightarrow> Throw e s1
           | Diverge \<Rightarrow> Diverge))"


text \<open>\<open>stepVariableDeclaration\<close>.\<close>

definition declaratorInit :: "node \<Rightarrow> node option" where
  "declaratorInit d = (case d of VariableDeclarator e n i \<Rightarrow> i | _ \<Rightarrow> None)"

fun nextInit :: "node list \<Rightarrow> nat \<Rightarrow> (nat \<times> node) option" where
  "nextInit [] n = None"
| "nextInit (d # ds) n =
     (case declaratorInit d of
        Some i \<Rightarrow> Some (n, i)
      | None \<Rightarrow> nextInit ds (n + 1))"

definition stepVariableDeclaration ::
  "host \<Rightarrow> interp \<Rightarrow> frame \<Rightarrow> node list \<Rightarrow> frame option outcome" where
  "stepVariableDeclaration H s state declarations =
     (let go = (\<lambda>sx n.
                  case nextInit (drop n declarations) n of
                    Some (m, i) \<Rightarrow>
                      Ret (Some (newState i (scope state)))
                          (updTop (\<lambda>f. f\<lparr>n' := m, init' := True\<rparr>) sx)
                  | None \<Rightarrow> Ret None (pop sx))
      in case (if init' state then nth_opt declarations (n' state) else None) of
           Some d \<Rightarrow>
             (case setValueToScope H s (declaratorName d) (fvalue state) of
                Diverge \<Rightarrow> Diverge
              | Throw e s1 \<Rightarrow> Throw e s1
              | Ret u s1 \<Rightarrow> go (updTop (\<lambda>f. f\<lparr>init' := False\<rparr>) s1) (n' state + 1))
         | None \<Rightarrow> go s (n' state))"

section \<open>The step engine\<close>

text \<open>
  \<open>this.stepFunctions_[type](stack, state, node)\<close>: the step function of the node's
  type, applied to the top frame. There is no step function for a declarator.
\<close>

definition dispatch :: "host \<Rightarrow> interp \<Rightarrow> frame \<Rightarrow> frame option outcome" where
  "dispatch H s state =
     (case node state of
        Program e b \<Rightarrow> stepProgram s state b
      | ExpressionStatement e x \<Rightarrow> stepExpressionStatement s state x
      | Literal e v \<Rightarrow> stepLiteral s state v
      | Identifier e n \<Rightarrow> stepIdentifier H s state n
      | MemberExpression e ob p c \<Rightarrow> stepMemberExpression H s state ob p c
      | AssignmentExpression e oper l r \<Rightarrow> stepAssignmentExpression H s state oper l r
      | CallExpression e c a \<Rightarrow> stepCallExpression H s state (node state) False c a
      | NewExpression e c a \<Rightarrow> stepCallExpression H s state (node state) True c a
      | SyntheticCall \<Rightarrow> stepCallExpression H s state (node state) False SyntheticCall []
      | UnaryExpression e oper a \<Rightarrow> stepUnaryExpression H s state oper a
      | BlockStatement e b \<Rightarrow> stepBlockStatement s state b
      | ReturnStatement e a \<Rightarrow> stepReturnStatement H s state a
      | FunctionExpression e i ps b \<Rightarrow> stepFunctionExpression H s state (node state) (length ps)
      | FunctionDeclaration e i ps b \<Rightarrow> stepFunctionDeclaration s
      | VariableDeclaration e ds \<Rightarrow> stepVariableDeclaration H s state ds
      | VariableDeclarator e n i \<Rightarrow>
          Throw (HostThrow (HostTypeError ''this.stepFunctions_[type] is not a function'')) s
      | OtherNode t e cs \<Rightarrow> otherStep H s state (node state))"

text \<open>
  The \<open>try\<close> around the step function in \<open>step\<close>: a \<open>STEP_ERROR\<close> is eaten (the
  exception has been put on the stack by \<open>throwException\<close>), any other error is thrown
  on. The result is the frame to push, if any.
\<close>

definition tryStep :: "host \<Rightarrow> interp \<Rightarrow> frame \<Rightarrow> frame option outcome" where
  "tryStep H s state =
     (case dispatch H s state of
        Ret nextState s1 \<Rightarrow> Ret nextState s1
      | Diverge \<Rightarrow> Diverge
      | Throw e s1 \<Rightarrow>
          (case throwException H e s1 of
             None \<Rightarrow> Diverge
           | Some Diverge \<Rightarrow> Diverge
           | Some (Throw e2 s2) \<Rightarrow> Throw e2 s2
           | Some (Ret u s2) \<Rightarrow> Ret None s2))"

definition push :: "frame option \<Rightarrow> interp \<Rightarrow> interp" where
  "push nextState s =
     (case nextState of None \<Rightarrow> s | Some f \<Rightarrow> s\<lparr>stateStack := f # stateStack s\<rparr>)"

text \<open>
  \<open>step()\<close>. It calls itself while the node just stepped has no \<open>end\<close> (polyfill code);
  \<open>None\<close> is a call that does not return. \<open>Some (Throw e s)\<close> is the host exception
  that leaves \<open>step\<close>.
\<close>

partial_function (option) step :: "host \<Rightarrow> interp \<Rightarrow> bool outcome option" where
  "step H s =
     (case stateStack s of
        [] \<Rightarrow> Some (Ret False s)
      | state # rest \<Rightarrow>
          if ntype (node state) = ''Program'' \<and> fdone state then Some (Ret False s)
          else if paused' s then Some (Ret True s)
          else
            (case tryStep H s state of
               Diverge \<Rightarrow> None
             | Throw e s1 \<Rightarrow> Some (Throw e s1)
             | Ret nextState s1 \<Rightarrow>
                 if nend (node state) = 0 then step H (push nextState s1)
                 else Some (Ret True (push nextState s1))))"

declare step.simps [code]

text \<open>\<open>run()\<close>: \<open>while (!this.paused_ && this.step()) {}; return this.paused_\<close>.\<close>

partial_function (option) run :: "host \<Rightarrow> interp \<Rightarrow> bool outcome option" where
  "run H s =
     (if paused' s then Some (Ret True s)
      else
        (case step H s of
           None \<Rightarrow> None
         | Some Diverge \<Rightarrow> None
         | Some (Throw e s1) \<Rightarrow> Some (Throw e s1)
         | Some (Ret b s1) \<Rightarrow> if b then run H s1 else Some (Ret (paused' s1) s1)))"

declare run.simps [code]

text \<open>
  The host loop \<open>while (interpreter.step()) {}\<close>: \<open>step\<close> called until it returns false.
  The result is the final state, or the exception that left \<open>step\<close>.
\<close>

partial_function (option) stepUntilFalse :: "host \<Rightarrow> interp \<Rightarrow> unit outcome option" where
  "stepUntilFalse H s =
     (case step H s of
        None \<Rightarrow> None
      | Some Diverge \<Rightarrow> None
      | Some (Throw e s1) \<Rightarrow> Some (Throw e s1)
      | Some (Ret b s1) \<Rightarrow> if b then stepUntilFalse H s1 else Some (Ret () s1))"

declare stepUntilFalse.simps [code]

text \<open>
  The callback that \<open>stepCallExpression\<close> hands to an asynchronous function:
  \<open>state.value = value; thisInterpreter.paused_ = false\<close>, where \<open>state\<close> is the frame of
  the call, the top frame while the interpreter is paused.
\<close>

definition asyncCallback :: "val \<Rightarrow> interp \<Rightarrow> interp" where
  "asyncCallback v s = (updTop (\<lambda>f. f\<lparr>fvalue := v\<rparr>) s)\<lparr>paused' := False\<rparr>"


section \<open>A small interpreter state for the examples\<close>

text \<open>
  A store with the objects that the constructor of the interpreter creates first: the
  global scope (handle 0), \<open>Object.prototype\<close> (1), \<open>Function.prototype\<close> (2), and for
  each built-in constructor used below the function object and its \<open>prototype\<close> object.
  The global scope has the variable \<open>x\<close> (declared with \<open>var\<close>, so not configurable).
  The host of the examples runs the interpreter's code in sloppy mode, as the file is
  loaded (see \<open>fileHostStrict\<close>), and its native functions return \<open>undefined\<close>.
\<close>

definition dataProp :: "val \<Rightarrow> property" where
  "dataProp v = \<lparr>pvalue = v, configurable = True, enumerable = True, writable = True\<rparr>"

definition constructorObject :: "nat \<Rightarrow> nat \<Rightarrow> obj" where
  "constructorObject fid protoHandle =
     (newObject (Obj 2))\<lparr>oclass := ''Function'',
        properties := [(''prototype'', dataProp (Obj protoHandle))], nativeFunc := Some fid\<rparr>"

definition baseHeap :: "obj list" where
  "baseHeap =
     [ (newObject (Obj 1))\<lparr>properties :=
          [(''undefined'', \<lparr>pvalue = Undefined, configurable = True, enumerable = True, writable = False\<rparr>),
           (''sleep'', dataProp (Obj 19)),
           (''nothing'', dataProp (Obj 20)),
           (''x'', \<lparr>pvalue = Num (Fin 1), configurable = False, enumerable = True, writable = True\<rparr>)]\<rparr>,
       (newObject Null)\<lparr>properties :=
          [(''toString'', \<lparr>pvalue = Obj 21, configurable = True, enumerable = False, writable = True\<rparr>)]\<rparr>,
       (newObject (Obj 1))\<lparr>oclass := ''Function''\<rparr>,
       constructorObject 0 1,
       constructorObject 1 2,
       newObject (Obj 1),
       constructorObject 2 5,
       newObject (Obj 1),
       constructorObject 3 7,
       (newObject (Obj 1))\<lparr>properties := [(''toFixed'', dataProp (Obj 21))]\<rparr>,
       constructorObject 4 9,
       newObject (Obj 1),
       constructorObject 5 11,
       (newObject (Obj 1))\<lparr>oclass := ''Error''\<rparr>,
       constructorObject 6 13,
       (newObject (Obj 13))\<lparr>oclass := ''Error'',
          properties := [(''name'', dataProp (Str ''TypeError''))]\<rparr>,
       constructorObject 7 15,
       (newObject (Obj 13))\<lparr>oclass := ''Error'',
          properties := [(''name'', dataProp (Str ''ReferenceError''))]\<rparr>,
       constructorObject 8 17,
       (newObject (Obj 2))\<lparr>oclass := ''Function'', asyncFunc := Some 9\<rparr>,
       (newObject (Obj 2))\<lparr>oclass := ''Function'', nativeFunc := Some 10\<rparr>,
       (newObject (Obj 2))\<lparr>oclass := ''Function'', nativeFunc := Some 11\<rparr> ]"

definition baseInterp :: "node \<Rightarrow> interp" where
  "baseInterp program =
     \<lparr>heap = baseHeap, stateStack = [newState program 0], paused' = False, ivalue = Undefined,
      global = 0, OBJECT = 3, OBJECT_PROTO = 1, FUNCTION = 4, FUNCTION_PROTO = 2, ARRAY = 6,
      ARRAY_PROTO = 5, STRING = 8, NUMBER = 10, BOOLEAN = 12, REGEXP = 3,
      errorClass = (\<lambda>c. case c of TYPE_ERROR \<Rightarrow> 16 | REFERENCE_ERROR \<Rightarrow> 18 | _ \<Rightarrow> 14),
      invocations = []\<rparr>"

text \<open>
  The interpreter's \<open>'use strict'\<close> stands at line 1919 of the file, after the Acorn
  module: it is not the first statement of the script, hence no directive, and the
  interpreter's functions are sloppy-mode code.
\<close>

definition fileHostStrict :: bool where
  "fileHostStrict = False"

text \<open>The same host with the interpreter's code taken as strict-mode code.\<close>

definition strictHost :: host where
  "strictHost =
     Host True (\<lambda>hp h. ''[object]'') (\<lambda>r. ''0'') (\<lambda>t. NaN) (\<lambda>hp v. NaN)
       (\<lambda>oper a b. Undefined) (\<lambda>oper a. Undefined)
       (\<lambda>fid this args s. Ret Undefined s) (\<lambda>fid this args s. s)
       (\<lambda>s state nd. Throw (HostThrow (HostError ''no step function'')) s)"

definition plainHost :: host where
  "plainHost =
     Host fileHostStrict (\<lambda>hp h. ''[object]'') (\<lambda>r. ''0'') (\<lambda>t. NaN) (\<lambda>hp v. NaN)
       (\<lambda>oper a b. Undefined) (\<lambda>oper a. Undefined)
       (\<lambda>fid this args s. Ret Undefined s) (\<lambda>fid this args s. s)
       (\<lambda>s state nd. Throw (HostThrow (HostError ''no step function'')) s)"


section \<open>Notions used in the statements\<close>

text \<open>
  A state stack as the interpreter builds it: the root frame is the program, and no frame
  above it is a \<open>Program\<close> node.
\<close>

definition wellFormedStack :: "frame list \<Rightarrow> bool" where
  "wellFormedStack fs =
     (fs \<noteq> [] \<and> ntype (node (last fs)) = ''Program''
      \<and> (\<forall>f \<in> set (butlast fs). ntype (node f) \<noteq> ''Program''))"

text \<open>The result of the last of \<open>n + 1\<close> successive calls of \<open>step\<close>.\<close>

fun stepTimes :: "host \<Rightarrow> nat \<Rightarrow> interp \<Rightarrow> bool outcome option" where
  "stepTimes H 0 s = step H s"
| "stepTimes H (Suc n) s =
     (case step H s of
        Some (Ret b s1) \<Rightarrow> stepTimes H n s1
      | r \<Rightarrow> r)"

text \<open>The value and the state that a call returned, if it returned.\<close>

definition returned :: "'a outcome option \<Rightarrow> 'a option" where
  "returned r = (case r of Some (Ret b s) \<Rightarrow> Some b | _ \<Rightarrow> None)"

definition stateOf :: "'a outcome option \<Rightarrow> interp option" where
  "stateOf r = (case r of Some (Ret b s) \<Rightarrow> Some s | _ \<Rightarrow> None)"

text \<open>
  Two programs over the example state: \<open>sleep();\<close> calls an asynchronous function whose
  callback is not called before it returns, \<open>nothing();\<close> calls a native function.
\<close>

definition asyncProgram :: node where
  "asyncProgram = Program 8 [ExpressionStatement 8 (CallExpression 7 (Identifier 5 ''sleep'') [])]"

definition nativeProgram :: node where
  "nativeProgram = Program 10 [ExpressionStatement 10 (CallExpression 9 (Identifier 7 ''nothing'') [])]"

text \<open>The state in which \<open>run\<close> leaves \<open>sleep();\<close>: paused in the call.\<close>

definition pausedState :: interp where
  "pausedState =
     (case stateOf (run plainHost (baseInterp asyncProgram)) of
        Some s \<Rightarrow> s
      | None \<Rightarrow> baseInterp asyncProgram)"


text \<open>The state that an outcome carries, and the program \<open>delete x;\<close>.\<close>

definition outcomeState :: "'a outcome \<Rightarrow> interp option" where
  "outcomeState r = (case r of Ret v s \<Rightarrow> Some s | Throw e s \<Rightarrow> Some s | Diverge \<Rightarrow> None)"

definition deleteProgram :: node where
  "deleteProgram = Program 9 [ExpressionStatement 9 (UnaryExpression 8 ''delete'' (Identifier 8 ''x''))]"

text \<open>
  The state of \<open>delete x;\<close> after four steps: the operand has been evaluated to the
  reference \<open>[SCOPE_REFERENCE, 'x']\<close> and the \<open>delete\<close> itself is next.
\<close>

definition deleteFrame :: frame where
  "deleteFrame =
     (newState (UnaryExpression 8 ''delete'' (Identifier 8 ''x'')) 0)
       \<lparr>done' := True, fvalue := Reference SCOPE_REFERENCE (Str ''x'')\<rparr>"

definition deleteState :: interp where
  "deleteState =
     (baseInterp deleteProgram)
       \<lparr>stateStack :=
          [deleteFrame,
           (newState (ExpressionStatement 9 (UnaryExpression 8 ''delete'' (Identifier 8 ''x''))) 0)
             \<lparr>done' := True\<rparr>,
           (newState deleteProgram 0)\<lparr>n' := 1\<rparr>]\<rparr>"

text \<open>
  The primitive values of the guest, and the built-in constructor whose \<open>prototype\<close>
  boxes each of them.
\<close>

definition isPrimitive :: "val \<Rightarrow> bool" where
  "isPrimitive v = (case v of Bool b \<Rightarrow> True | Num x \<Rightarrow> True | Str t \<Rightarrow> True | _ \<Rightarrow> False)"

definition boxedConstructor :: "interp \<Rightarrow> val \<Rightarrow> nat" where
  "boxedConstructor s v = (case v of Num x \<Rightarrow> NUMBER s | Bool b \<Rightarrow> BOOLEAN s | _ \<Rightarrow> STRING s)"

text \<open>
  The prototype chain of a value as a list of objects: the value itself when it is an
  object, then its \<open>proto\<close>, and so on until a value that is not truthy. There is no
  list when the chain does not end within \<open>fuel\<close> links or reaches a truthy value that
  is no object. \<open>lookupOnChain\<close> is the outcome of reading a property off the first
  object of such a list that has it: the value, or the getter flagged as one.
\<close>

fun protoChain :: "nat \<Rightarrow> interp \<Rightarrow> val \<Rightarrow> nat list option" where
  "protoChain 0 s v = None"
| "protoChain (Suc fuel) s v =
     (case v of
        Obj h \<Rightarrow> map_option (Cons h) (protoChain fuel s (proto (getObj s h)))
      | _ \<Rightarrow> if truthy v then None else Some [])"

definition lookupOnChain :: "host \<Rightarrow> interp \<Rightarrow> nat list \<Rightarrow> string \<Rightarrow> val outcome" where
  "lookupOnChain H s hs name =
     (case find (\<lambda>h. propIn name (properties (getObj s h))) hs of
        None \<Rightarrow> Ret Undefined s
      | Some h \<Rightarrow>
          if truthy (tableRead (getter (getObj s h)) name) then
            (case setIsGetter H s (tableRead (getter (getObj s h)) name) True of
               Ret u s1 \<Rightarrow> Ret (tableRead (getter (getObj s h)) name) s1
             | Throw e s1 \<Rightarrow> Throw e s1
             | Diverge \<Rightarrow> Diverge)
          else Ret (propRead (properties (getObj s h)) name) s)"

text \<open>
  Whether \<open>String.prototype\<close> is the value or one of the objects of its chain, and
  whether a name is an index into the characters of a string.
\<close>

definition isStringLike :: "interp \<Rightarrow> val \<Rightarrow> nat list \<Rightarrow> bool" where
  "isStringLike s v hs =
     (strictEq v (propRead (properties (getObj s (STRING s))) ''prototype'')
      \<or> list_ex (\<lambda>h. propRead (properties (getObj s (STRING s))) ''prototype'' = Obj h) hs)"

definition charIndex :: "string \<Rightarrow> string \<Rightarrow> nat option" where
  "charIndex name x =
     (case name of
        [] \<Rightarrow> None
      | c # cs \<Rightarrow>
          if (of_char c :: nat) < 0x40 then
            (case legalArrayIndex name of
               Some i \<Rightarrow> if i < length x then Some i else None
             | None \<Rightarrow> None)
          else None)"

text \<open>The value that an outcome returns.\<close>

definition returnedValue :: "'a outcome \<Rightarrow> 'a option" where
  "returnedValue r = (case r of Ret v s \<Rightarrow> Some v | _ \<Rightarrow> None)"


definition thrownError :: "'a outcome \<Rightarrow> exn option" where
  "thrownError r = (case r of Throw e s \<Rightarrow> Some e | _ \<Rightarrow> None)"

definition globalBinding :: "string \<Rightarrow> 'a outcome \<Rightarrow> property option" where
  "globalBinding name r =
     (case r of
        Ret v s \<Rightarrow> map_of (properties (getObj s (global s))) name
      | Throw e s \<Rightarrow> map_of (properties (getObj s (global s))) name
      | Diverge \<Rightarrow> None)"




text \<open>The program \<open>zzz;\<close>, which reads a variable that is not bound.\<close>

definition unboundProgram :: node where
  "unboundProgram = Program 4 [ExpressionStatement 4 (Identifier 3 ''zzz'')]"

section \<open>Numeric literals with a leading zero\<close>

lemma digitVal_digit: "isDigit c \<Longrightarrow> digitVal (Some (of_char c)) = Some (of_char c - 48)"
  by (auto simp: isDigit_def digitVal_def)

lemma digit_lt10: "isDigit c \<Longrightarrow> (of_char c :: nat) - 48 < 10"
  by (auto simp: isDigit_def)

lemma digitVal_nondigit:
  "\<not> isDigit c \<Longrightarrow> (case digitVal (Some (of_char c)) of None \<Rightarrow> True | Some v \<Rightarrow> v \<ge> 10)"
  by (auto simp: isDigit_def digitVal_def)

lemma charCodeAt_append: "charCodeAt (pre @ c # rest) (length pre) = Some (of_char c)"
  by (simp add: charCodeAt_def)

lemma charCodeAt_end: "charCodeAt pre (length pre) = None"
  by (simp add: charCodeAt_def)

lemma readInt_loop_digits:
  assumes "\<forall>c \<in> set ds. isDigit c"
    and "rest = [] \<or> \<not> isDigit (hd rest)"
    and "length ds < fuel"
  shows "fst (readInt_loop (pre @ ds @ rest) 10 None fuel i (length pre) tot) = length pre + length ds"
  using assms
proof (induction ds arbitrary: pre fuel i tot)
  case Nil
  obtain f where f: "fuel = Suc f" using Nil.prems(3) by (cases fuel) auto
  show ?case
  proof (cases rest)
    case Nil
    then show ?thesis using f by (simp add: charCodeAt_end digitVal_def)
  next
    case (Cons c r)
    then have "\<not> isDigit c" using Nil.prems(2) by simp
    from digitVal_nondigit[OF this] show ?thesis using f Cons
      by (auto simp: charCodeAt_append split: option.splits)
  qed
next
  case (Cons d ds)
  obtain f where f: "fuel = Suc f" using Cons.prems(3) by (cases fuel) auto
  have d: "isDigit d" using Cons.prems(1) by simp
  have ih: "fst (readInt_loop ((pre @ [d]) @ ds @ rest) 10 None f (i + 1) (length (pre @ [d]))
                   (accumulate tot 10 (of_char d - 48)))
             = length (pre @ [d]) + length ds"
    using Cons.prems f by (intro Cons.IH) auto
  show ?case using f ih digitVal_digit[OF d] digit_lt10[OF d]
    by (simp add: charCodeAt_append)
qed

lemma readInt_pos:
  assumes "\<forall>c \<in> set ds. isDigit c" and "rest = [] \<or> \<not> isDigit (hd rest)"
  shows "snd (readInt (pre @ ds @ rest) 10 None (length pre)) = length pre + length ds
         \<and> (fst (readInt (pre @ ds @ rest) 10 None (length pre)) = None \<longleftrightarrow> ds = [])"
proof -
  have "fst (readInt_loop (pre @ ds @ rest) 10 None (Suc (length (pre @ ds @ rest) - length pre)) 0
               (length pre) (Fin 0))
        = length pre + length ds"
    using assms by (intro readInt_loop_digits) auto
  then show ?thesis
    by (auto simp: readInt_def Let_def split: prod.splits)
qed

lemma parseInt_octal:
  assumes "\<forall>c \<in> set ds. isDigit c \<and> (of_char c :: nat) - 48 < 8" and "ds \<noteq> []"
  shows "parseInt ds 8 = roundDouble (of_nat (digitsValue 8 ds))"
proof -
  have tw: "takeWhile (\<lambda>c. isDigit c \<and> (of_char c :: nat) - 48 < 8) ds = ds"
    using assms(1) by (simp add: takeWhile_eq_all_conv)
  show ?thesis unfolding parseInt_def Let_def tw using assms(2) by simp
qed

lemma isIdentifierStart_None: "\<not> isIdentifierStart f None"
  by (simp add: isIdentifierStart_def)

lemma charCodeAt_boundary:
  "charCodeAt (pre @ rest) (length pre) = (case rest of [] \<Rightarrow> None | c # r \<Rightarrow> Some (of_char c))"
  by (simp add: charCodeAt_def nth_append split: list.splits)

lemma tokenEnd_code:
  assumes "tokenEnd nonASCII rest"
  shows "\<not> isIdentifierStart nonASCII (charCodeAt (pre @ rest) (length pre))"
    and "charCodeAt (pre @ rest) (length pre) \<noteq> Some 69"
    and "charCodeAt (pre @ rest) (length pre) \<noteq> Some 101"
    and "rest = [] \<or> \<not> isDigit (hd rest)"
proof -
  show a: "\<not> isIdentifierStart nonASCII (charCodeAt (pre @ rest) (length pre))"
    using assms
    by (auto simp: tokenEnd_def charCodeAt_boundary isIdentifierStart_None split: list.splits)
  show "charCodeAt (pre @ rest) (length pre) \<noteq> Some 69" using a by (auto simp: isIdentifierStart_def)
  show "charCodeAt (pre @ rest) (length pre) \<noteq> Some 101" using a by (auto simp: isIdentifierStart_def)
  show "rest = [] \<or> \<not> isDigit (hd rest)" using assms by (auto simp: tokenEnd_def split: list.splits)
qed

lemma dot_code: "(c = CHR ''.'') = ((of_char c :: nat) = 46)"
proof -
  have "(of_char c :: nat) = of_char (CHR ''.'') \<longleftrightarrow> c = CHR ''.''" by (simp only: of_char_eq_iff)
  then show ?thesis by simp
qed

text \<open>
  The integer part: after a zero and the digits \<open>ds\<close>, followed by something that is no
  digit, \<open>readInt(10)\<close> has moved \<open>tokPos\<close> behind the digits and returned a number.
\<close>

lemma readNumber_intPart:
  assumes "\<forall>c \<in> set ds. isDigit c" and "after = [] \<or> \<not> isDigit (hd after)"
  shows "\<exists>t. readInt (pre @ (CHR ''0'' # ds) @ after) 10 None (length pre)
              = (Some t, length pre + 1 + length ds)"
proof -
  have all: "\<forall>c \<in> set (CHR ''0'' # ds). isDigit c" using assms(1) by (simp add: isDigit_def)
  have "CHR ''0'' # ds \<noteq> []" by simp
  from readInt_pos[OF all assms(2), of pre] this show ?thesis
    by (cases "readInt (pre @ (CHR ''0'' # ds) @ after) 10 None (length pre)") auto
qed

text \<open>
  C9, as the code has it. A literal that begins with a zero followed by at least one more
  digit, after which the token ends. Without fraction and exponent: in non-strict mode
  with digits 0 to 7 only it is read in base 8 (the value is the double nearest to the
  octal numeral); with a digit 8 or 9 among them it raises "Invalid number" (it is not
  read as decimal); in strict mode it raises "Invalid number" whatever its digits. With a
  fraction or an exponent it is read as a decimal number by \<open>parseFloat\<close>, in both modes
  and whatever its digits.
\<close>

theorem readNumber_legacy_octal:
  assumes ds: "ds \<noteq> []" "\<forall>c \<in> set ds. isDigit c"
    and fs: "\<forall>c \<in> set fs. isDigit c"
    and es: "\<forall>c \<in> set es. isDigit c"
    and fpart: "fpart = [] \<or> fpart = CHR ''.'' # fs"
    and epart: "epart = [] \<or> (es \<noteq> [] \<and> epart = x # sg @ es)"
    and x: "x = CHR ''e'' \<or> x = CHR ''E''"
    and sg: "sg = [] \<or> sg = ''+'' \<or> sg = ''-''"
    and fin: "tokenEnd nonASCII rest"
      "fpart = [] \<and> epart = [] \<longrightarrow> rest = [] \<or> hd rest \<noteq> CHR ''.''"
  shows "readNumber nonASCII (pre @ (CHR ''0'' # ds @ fpart @ epart) @ rest) strictMode (length pre) False =
           (if fpart = [] \<and> epart = [] then
              (if strictMode \<or> (\<exists>c \<in> set ds. c = CHR ''8'' \<or> c = CHR ''9'')
               then Inl (SyntaxError (length pre) ''Invalid number'')
               else Inr (roundDouble (of_nat (digitsValue 8 (CHR ''0'' # ds))),
                         length pre + 1 + length ds))
            else Inr (parseFloat (CHR ''0'' # ds @ fpart @ epart),
                      length pre + 1 + length ds + length fpart + length epart))"
proof -
  define lit where "lit = CHR ''0'' # ds @ fpart @ epart"
  define input where "input = pre @ lit @ rest"
  define p0 where "p0 = length pre + 1 + length ds"
  define p1 where "p1 = p0 + length fpart"
  define p3 where "p3 = p1 + length epart"
  have goal_input: "pre @ (CHR ''0'' # ds @ fpart @ epart) @ rest = input"
    by (simp add: input_def lit_def)
  have stopR: "rest = [] \<or> \<not> isDigit (hd rest)" by (rule tokenEnd_code(4)[OF fin(1)])
  have xnd: "\<not> isDigit x" using x by (auto simp: isDigit_def)
  have stop0: "fpart @ epart @ rest = [] \<or> \<not> isDigit (hd (fpart @ epart @ rest))"
    using fpart epart stopR xnd by (auto simp: isDigit_def)
  have in0: "input = pre @ (CHR ''0'' # ds) @ (fpart @ epart @ rest)"
    by (simp add: input_def lit_def)
  obtain t where ri: "readInt input 10 None (length pre) = (Some t, p0)"
    unfolding in0 p0_def using readNumber_intPart[OF ds(2) stop0, of pre] by auto
  have oct: "charCodeAt input (length pre) = Some 48"
    unfolding in0 by (simp add: charCodeAt_boundary)
  have at0: "charCodeAt input p0 = (case fpart @ epart @ rest of [] \<Rightarrow> None | c # r \<Rightarrow> Some (of_char c))"
    using charCodeAt_boundary[of "pre @ (CHR ''0'' # ds)" "fpart @ epart @ rest"]
    unfolding in0 p0_def by simp
  have stop1: "epart @ rest = [] \<or> \<not> isDigit (hd (epart @ rest))"
    using epart stopR xnd by auto
  have in1: "input = (pre @ (CHR ''0'' # ds) @ fpart) @ (epart @ rest)"
    by (simp add: input_def lit_def)
  have l1: "length (pre @ (CHR ''0'' # ds) @ fpart) = p1" by (simp add: p1_def p0_def)
  have at1: "charCodeAt input p1 = (case epart @ rest of [] \<Rightarrow> None | c # r \<Rightarrow> Some (of_char c))"
    using charCodeAt_boundary[of "pre @ (CHR ''0'' # ds) @ fpart" "epart @ rest"]
    unfolding in1 l1 by simp
  have pf: "snd (readInt input 10 None (Suc p0)) = p1" if f: "fpart = CHR ''.'' # fs"
  proof -
    have i: "input = (pre @ (CHR ''0'' # ds) @ ''.'') @ fs @ (epart @ rest)"
      by (simp add: input_def lit_def f)
    have l: "length (pre @ (CHR ''0'' # ds) @ ''.'') = Suc p0" by (simp add: p0_def)
    have "snd (readInt ((pre @ (CHR ''0'' # ds) @ ''.'') @ fs @ (epart @ rest)) 10 None
                 (length (pre @ (CHR ''0'' # ds) @ ''.'')))
            = length (pre @ (CHR ''0'' # ds) @ ''.'') + length fs"
      using readInt_pos[OF fs stop1] by blast
    then show ?thesis unfolding i[symmetric] l by (simp add: p1_def f)
  qed
  have dot0: "(charCodeAt input p0 = Some 46) = (fpart \<noteq> [])"
  proof (cases "fpart = []")
    case False
    then show ?thesis using fpart at0 by auto
  next
    case True
    show ?thesis
    proof (cases "epart = []")
      case False
      then have "charCodeAt input p0 = Some (of_char x)" using True epart at0 by auto
      then show ?thesis using True x by auto
    next
      case e: True
      have "rest = [] \<or> hd rest \<noteq> CHR ''.''" using fin(2) True e by simp
      then show ?thesis using True e at0 by (cases rest) (auto simp: dot_code)
    qed
  qed
  have in3: "input = (pre @ lit) @ rest" by (simp add: input_def)
  have l3: "length (pre @ lit) = p3" by (simp add: p3_def p1_def p0_def lit_def)
  have str: "take (p3 - length pre) (drop (length pre) input) = lit"
    unfolding input_def using l3 by simp
  have endOK: "\<not> isIdentifierStart nonASCII (charCodeAt input p3)"
    using tokenEnd_code(1)[OF fin(1), of "pre @ lit"] unfolding in3 l3 by simp
  have p3v: "p3 = length pre + 1 + length ds + length fpart + length epart"
    by (simp add: p3_def p1_def p0_def)
  have step1: "(if charCodeAt input p0 = Some 46
                then (True, snd (readInt input 10 None (p0 + 1))) else (False, p0)) = (fpart \<noteq> [], p1)"
  proof (cases "fpart = []")
    case True
    then show ?thesis using dot0 by (simp add: p1_def)
  next
    case False
    then have "fpart = CHR ''.'' # fs" using fpart by simp
    from pf[OF this] show ?thesis using dot0 False by simp
  qed
  show ?thesis
  proof (cases "epart = []")
    case True
    have p31: "p3 = p1" using True by (simp add: p3_def)
    have ne: "charCodeAt input p1 \<noteq> Some 69" "charCodeAt input p1 \<noteq> Some 101"
      using tokenEnd_code(2,3)[OF fin(1), of "pre @ lit"] unfolding in3 l3 p31 by simp_all
    have endOK1: "\<not> isIdentifierStart nonASCII (charCodeAt input p1)" using endOK p31 by simp
    have str1: "take (p1 - length pre) (drop (length pre) input) = lit" using str p31 by simp
    have res: "readNumber nonASCII input strictMode (length pre) False =
                 (if fpart \<noteq> [] then Inr (parseFloat lit, p1)
                  else if (\<exists>c \<in> set lit. c = CHR ''8'' \<or> c = CHR ''9'') \<or> strictMode
                    then Inl (SyntaxError (length pre) ''Invalid number'')
                  else Inr (parseInt lit 8, p1))"
    proof -
      have len: "length lit \<noteq> 1" using ds(1) by (simp add: lit_def)
      have ne': "(charCodeAt input p1 = Some 69 \<or> charCodeAt input p1 = Some 101) = False"
        using ne by simp
      have id': "isIdentifierStart nonASCII (charCodeAt input p1) = False" using endOK1 by simp
      have c48: "(charCodeAt input (length pre) \<noteq> Some 48 \<or> length lit = 1) = False"
        using oct len by simp
      show ?thesis
        unfolding readNumber_def Let_def
        by (simp only: simp_thms if_True if_False ri prod.case step1 ne' id' str1 c48 option.distinct)
    qed
    show ?thesis
    proof (cases "fpart = []")
      case False
      then show ?thesis unfolding goal_input res using True by (simp add: lit_def p1_def p0_def)
    next
      case fe: True
      have lit0: "lit = CHR ''0'' # ds" using fe True by (simp add: lit_def)
      have has89: "(\<exists>c \<in> set lit. c = CHR ''8'' \<or> c = CHR ''9'')
                   = (\<exists>c \<in> set ds. c = CHR ''8'' \<or> c = CHR ''9'')"
        unfolding lit0 by auto
      have all: "\<forall>c \<in> set lit. isDigit c" using ds(2) unfolding lit0 by (simp add: isDigit_def)
      have p1v: "p1 = length pre + 1 + length ds" using fe by (simp add: p1_def p0_def)
      show ?thesis
      proof (cases "strictMode \<or> (\<exists>c \<in> set ds. c = CHR ''8'' \<or> c = CHR ''9'')")
        case bad: True
        then show ?thesis unfolding goal_input res has89 using True fe by auto
      next
        case good: False
        have "\<forall>c \<in> set lit. isDigit c \<and> (of_char c :: nat) - 48 < 8"
        proof
          fix c assume c: "c \<in> set lit"
          then have d: "isDigit c" using all by blast
          have "c \<noteq> CHR ''8''" "c \<noteq> CHR ''9''" using good c unfolding lit0 by auto
          then have "(of_char c :: nat) \<noteq> of_char (CHR ''8'')" "(of_char c :: nat) \<noteq> of_char (CHR ''9'')"
            by (simp_all only: of_char_eq_iff) simp_all
          then have "of_char c \<noteq> (56::nat)" "of_char c \<noteq> (57::nat)" by simp_all
          then show "isDigit c \<and> (of_char c :: nat) - 48 < 8" using d by (auto simp: isDigit_def)
        qed
        then have pi: "parseInt lit 8 = roundDouble (of_nat (digitsValue 8 lit))"
          by (intro parseInt_octal) (auto simp: lit0)
        show ?thesis unfolding goal_input res has89 pi using True fe good by (simp add: lit0 p1v)
      qed
    qed
  next
    case False
    then have e: "epart = x # sg @ es" "es \<noteq> []" using epart by auto
    have nx: "charCodeAt input p1 = Some (of_char x)" using at1 e by simp
    have isE: "charCodeAt input p1 = Some 69 \<or> charCodeAt input p1 = Some 101" using nx x by auto
    have in2: "input = (pre @ (CHR ''0'' # ds) @ fpart @ [x]) @ (sg @ es @ rest)"
      by (simp add: input_def lit_def e)
    have l2: "length (pre @ (CHR ''0'' # ds) @ fpart @ [x]) = Suc p1" by (simp add: p1_def p0_def)
    have at2: "charCodeAt input (Suc p1) = (case sg @ es @ rest of [] \<Rightarrow> None | c # r \<Rightarrow> Some (of_char c))"
      using charCodeAt_boundary[of "pre @ (CHR ''0'' # ds) @ fpart @ [x]" "sg @ es @ rest"]
      unfolding in2 l2 by simp
    obtain d es' where es': "es = d # es'" using e(2) by (cases es) auto
    have dd: "isDigit d" using es es' by simp
    have sign: "(charCodeAt input (Suc p1) = Some 43 \<or> charCodeAt input (Suc p1) = Some 45) = (sg \<noteq> [])"
      using sg at2 es' dd by (auto simp: isDigit_def)
    define p2 where "p2 = Suc p1 + length sg"
    have step2: "(if charCodeAt input (p1 + 1) = Some 43 \<or> charCodeAt input (p1 + 1) = Some 45
                  then p1 + 2 else p1 + 1) = p2"
      using sign sg by (auto simp: p2_def)
    have in4: "input = (pre @ (CHR ''0'' # ds) @ fpart @ [x] @ sg) @ es @ rest"
      by (simp add: input_def lit_def e)
    have l4: "length (pre @ (CHR ''0'' # ds) @ fpart @ [x] @ sg) = p2"
      by (simp add: p2_def p1_def p0_def)
    have "snd (readInt ((pre @ (CHR ''0'' # ds) @ fpart @ [x] @ sg) @ es @ rest) 10 None
                 (length (pre @ (CHR ''0'' # ds) @ fpart @ [x] @ sg)))
            = length (pre @ (CHR ''0'' # ds) @ fpart @ [x] @ sg) + length es
          \<and> (fst (readInt ((pre @ (CHR ''0'' # ds) @ fpart @ [x] @ sg) @ es @ rest) 10 None
                     (length (pre @ (CHR ''0'' # ds) @ fpart @ [x] @ sg))) = None
              \<longleftrightarrow> es = [])"
      by (rule readInt_pos[OF es stopR])
    then have r3: "snd (readInt input 10 None p2) = p3 \<and> fst (readInt input 10 None p2) \<noteq> None"
      unfolding in4[symmetric] l4 using e by (simp add: p3_def p2_def)
    obtain r3v where r3v: "readInt input 10 None p2 = (Some r3v, p3)"
      using r3 by (cases "readInt input 10 None p2") auto
    have isE': "(charCodeAt input p1 = Some 69 \<or> charCodeAt input p1 = Some 101) = True"
      using isE by simp
    have id3: "isIdentifierStart nonASCII (charCodeAt input p3) = False" using endOK by simp
    have "readNumber nonASCII input strictMode (length pre) False = Inr (parseFloat lit, p3)"
      unfolding readNumber_def Let_def
      by (simp only: simp_thms if_True if_False ri prod.case step1 step2 r3v isE' id3 str option.distinct)
    then show ?thesis unfolding goal_input using False by (simp add: lit_def p3v)
  qed
qed

theorem readNumber_legacy_octal_witness:
  "readNumber (\<lambda>c. False) ''010'' False 0 False = Inr (Fin 8, 3)
   \<and> readNumber (\<lambda>c. False) ''010'' True 0 False = Inl (SyntaxError 0 ''Invalid number'')
   \<and> readNumber (\<lambda>c. False) ''010.5e+1;'' True 0 False = Inr (Fin 105, 8)"
proof -
  have a: "''10'' \<noteq> []" by simp
  have b: "\<forall>c \<in> set ''10''. isDigit c" by (simp add: isDigit_def)
  have b5: "\<forall>c \<in> set ''5''. isDigit c" by (simp add: isDigit_def)
  have b1: "\<forall>c \<in> set ''1''. isDigit c" by (simp add: isDigit_def)
  have c: "tokenEnd (\<lambda>c. False) []" by (simp add: tokenEnd_def)
  have c2: "tokenEnd (\<lambda>c. False) '';''" by (simp add: tokenEnd_def isDigit_def isIdentifierStart_def)
  have n: "(\<exists>c \<in> set ''10''. c = CHR ''8'' \<or> c = CHR ''9'') = False" by simp
  have v: "roundDouble (of_nat (digitsValue 8 ''010'')) = Fin 8" by code_simp
  have w: "parseFloat ''010.5e+1'' = Fin 105" by code_simp
  have i1: "readNumber (\<lambda>c. False) ''010'' False 0 False = Inr (Fin 8, 3)"
    using readNumber_legacy_octal [OF a b b5 b1, where fpart = "[]" and epart = "[]" and x = "CHR ''e''"
            and sg = "[]" and rest = "[]" and nonASCII = "\<lambda>c. False" and pre = "[]"
            and strictMode = False]
          c n v by simp
  have i2: "readNumber (\<lambda>c. False) ''010'' True 0 False = Inl (SyntaxError 0 ''Invalid number'')"
    using readNumber_legacy_octal [OF a b b5 b1, where fpart = "[]" and epart = "[]" and x = "CHR ''e''"
            and sg = "[]" and rest = "[]" and nonASCII = "\<lambda>c. False" and pre = "[]"
            and strictMode = True]
          c by simp
  have i3: "readNumber (\<lambda>c. False) ''010.5e+1;'' True 0 False = Inr (Fin 105, 8)"
    using readNumber_legacy_octal [OF a b b5 b1, where fpart = "''.5''" and epart = "''e+1''"
            and x = "CHR ''e''" and sg = "''+''" and rest = "'';''" and nonASCII = "\<lambda>c. False"
            and pre = "[]" and strictMode = True]
          c2 w by simp
  show ?thesis using i1 i2 i3 by blast
qed

text \<open>
  The claim as stated fails at \<open>08\<close> in non-strict mode: the literal is not read as the
  decimal 8, it raises the syntax error. It also fails at \<open>010.5\<close>: the literal is accepted
  in strict mode, and in both modes it is the decimal 10.5 although its digits are all
  below 8.
\<close>

theorem readNumber_08_counterexample:
  "readNumber (\<lambda>c. False) ''08'' False 0 False = Inl (SyntaxError 0 ''Invalid number'')
   \<and> readNumber (\<lambda>c. False) ''010.5'' True 0 False = Inr (Fin (21 / 2), 5)
   \<and> readNumber (\<lambda>c. False) ''010.5'' False 0 False = Inr (Fin (21 / 2), 5)"
  by code_simp

section \<open>Stepping and running\<close>

lemma step_paused:
  assumes "paused' s" and "stateStack s = f # fs"
    and "\<not> (ntype (node f) = ''Program'' \<and> fdone f)"
  shows "step H s = Some (Ret True s)"
  using assms by (subst step.simps) auto

lemma run_paused: "paused' s \<Longrightarrow> run H s = Some (Ret True s)"
  by (subst run.simps) simp

lemma top_not_done:
  assumes "wellFormedStack fs" and "\<not> fdone (last fs)"
  shows "\<exists>f rest. fs = f # rest \<and> \<not> (ntype (node f) = ''Program'' \<and> fdone f)"
proof (cases fs)
  case Nil
  then show ?thesis using assms by (simp add: wellFormedStack_def)
next
  case (Cons f rest)
  show ?thesis
  proof (cases rest)
    case Nil
    then show ?thesis using Cons assms by simp
  next
    case (Cons g gs)
    then have "f \<in> set (butlast fs)" using \<open>fs = f # rest\<close> by simp
    then have "ntype (node f) \<noteq> ''Program''" using assms by (simp add: wellFormedStack_def)
    then show ?thesis using \<open>fs = f # rest\<close> by simp
  qed
qed

text \<open>
  C1. In a state with \<open>paused_\<close> set whose root \<open>Program\<close> frame is not done, \<open>step()\<close>
  returns true and leaves the whole state (stack, scopes, objects, record of
  invocations) as it is, however often it is called, and \<open>run()\<close> returns true at once;
  the callback of the asynchronous function is what clears \<open>paused_\<close>.
\<close>

theorem paused_step_run:
  assumes "paused' s" and "wellFormedStack (stateStack s)" and "\<not> fdone (last (stateStack s))"
  shows "step H s = Some (Ret True s) \<and> stepTimes H n s = Some (Ret True s)
         \<and> run H s = Some (Ret True s) \<and> \<not> paused' (asyncCallback v s)"
proof -
  obtain f rest where fr: "stateStack s = f # rest" "\<not> (ntype (node f) = ''Program'' \<and> fdone f)"
    using top_not_done[OF assms(2,3)] by blast
  have st: "step H s = Some (Ret True s)" by (rule step_paused[OF assms(1) fr])
  have "stepTimes H n s = Some (Ret True s)" by (induction n) (simp_all add: st)
  then show ?thesis using st run_paused[OF assms(1)] by (simp add: asyncCallback_def)
qed

lemma pausedState_paused: "paused' pausedState"
  by code_simp

lemma pausedState_stack:
  "map (\<lambda>f. (ntype (node f), fdone f)) (stateStack pausedState) =
     [(''CallExpression'', False), (''ExpressionStatement'', False), (''Program'', False)]"
  by code_simp

lemma pausedState_wellFormed:
  "wellFormedStack (stateStack pausedState) \<and> \<not> fdone (last (stateStack pausedState))"
proof -
  obtain a b c where abc: "stateStack pausedState = [a, b, c]"
    using pausedState_stack by (auto simp: map_eq_Cons_conv)
  then show ?thesis using pausedState_stack by (simp add: wellFormedStack_def)
qed

theorem paused_step_run_witness:
  "step plainHost pausedState = Some (Ret True pausedState)
   \<and> stepTimes plainHost 3 pausedState = Some (Ret True pausedState)
   \<and> run plainHost pausedState = Some (Ret True pausedState)
   \<and> \<not> paused' (asyncCallback (Num (Fin 0)) pausedState)"
  using paused_step_run [OF pausedState_paused, of plainHost 3 "Num (Fin 0)"] pausedState_wellFormed
  by blast

section \<open>\<open>run\<close> against \<open>step\<close> until false\<close>

lemma run_false_stepUntilFalse:
  assumes "run H s = Some r"
  shows "\<forall>s'. r = Ret False s' \<longrightarrow> stepUntilFalse H s = Some (Ret () s')"
  using assms
proof (induction rule: run.raw_induct[rotated 1, consumes 1])
  case (1 run H s r)
  show ?case
  proof (intro allI impI)
    fix s' assume r: "r = Ret False s'"
    show "stepUntilFalse H s = Some (Ret () s')"
    proof (cases "paused' s")
      case True
      then show ?thesis using 1(2) r by simp
    next
      case False
      show ?thesis
      proof (cases "step H s")
        case None
        then show ?thesis using 1(2) False by simp
      next
        case (Some o1)
        show ?thesis
        proof (cases o1)
          case (Ret b s1)
          show ?thesis
          proof (cases b)
            case True
            then have "run H s1 = Some r" using 1(2) False Some Ret by simp
            from 1(1)[OF this] r have "stepUntilFalse H s1 = Some (Ret () s')" by blast
            then show ?thesis
              using Some Ret True by (subst stepUntilFalse.simps) simp
          next
            case bf: False
            then have "r = Ret (paused' s1) s1" using 1(2) False Some Ret by simp
            then have "s1 = s'" using r by simp
            then show ?thesis using Some Ret bf by (subst stepUntilFalse.simps) simp
          qed
        next
          case (Throw e s1)
          then show ?thesis using 1(2) r False Some by simp
        next
          case Diverge
          then show ?thesis using 1(2) False Some by simp
        qed
      qed
    qed
  qed
qed

lemma run_throw_stepUntilFalse:
  assumes "run H s = Some r"
  shows "\<forall>e s'. r = Throw e s' \<longrightarrow> stepUntilFalse H s = Some (Throw e s')"
  using assms
proof (induction rule: run.raw_induct[rotated 1, consumes 1])
  case (1 run H s r)
  show ?case
  proof (intro allI impI)
    fix e s' assume r: "r = Throw e s'"
    show "stepUntilFalse H s = Some (Throw e s')"
    proof (cases "paused' s")
      case True
      then show ?thesis using 1(2) r by simp
    next
      case False
      show ?thesis
      proof (cases "step H s")
        case None
        then show ?thesis using 1(2) False by simp
      next
        case (Some o1)
        show ?thesis
        proof (cases o1)
          case (Ret b s1)
          show ?thesis
          proof (cases b)
            case True
            then have "run H s1 = Some r" using 1(2) False Some Ret by simp
            from 1(1)[OF this] r have "stepUntilFalse H s1 = Some (Throw e s')" by blast
            then show ?thesis
              using Some Ret True by (subst stepUntilFalse.simps) simp
          next
            case bf: False
            then have "r = Ret (paused' s1) s1" using 1(2) False Some Ret by simp
            then show ?thesis using r by simp
          qed
        next
          case (Throw e1 s1)
          then have "r = Throw e1 s1" using 1(2) False Some by simp
          then show ?thesis using r Some Throw by (subst stepUntilFalse.simps) simp
        next
          case Diverge
          then show ?thesis using 1(2) False Some by simp
        qed
      qed
    qed
  qed
qed

lemma stepUntilFalse_stuck:
  assumes "step H s = Some (Ret True s)"
  shows "stepUntilFalse H s = None"
proof (rule ccontr)
  assume "stepUntilFalse H s \<noteq> None"
  then obtain y where y: "stepUntilFalse H s = Some y" by auto
  have "\<not> (H = H \<and> s = s)"
    using y
  proof (induction rule: stepUntilFalse.raw_induct[rotated 1, consumes 1,
            where P = "\<lambda>H' s' y. \<not> (H' = H \<and> s' = s)"])
    case (1 f H' s' y)
    show ?case
    proof
      assume "H' = H \<and> s' = s"
      then have "f H s = Some y" using 1(2) assms by simp
      from 1(1)[OF this] show False by simp
    qed
  qed
  then show False by simp
qed

text \<open>When \<open>step\<close> returns false, the stack is empty or its top is the finished program.\<close>

lemma step_false_shape:
  assumes "step H s = Some r"
  shows "\<forall>s'. r = Ret False s' \<longrightarrow>
           (case stateStack s' of [] \<Rightarrow> True | f # fs \<Rightarrow> ntype (node f) = ''Program'' \<and> fdone f)"
  using assms
proof (induction rule: step.raw_induct[rotated 1, consumes 1])
  case (1 step H s r)
  show ?case
  proof (intro allI impI)
    fix s' assume r: "r = Ret False s'"
    show "case stateStack s' of [] \<Rightarrow> True | f # fs \<Rightarrow> ntype (node f) = ''Program'' \<and> fdone f"
    proof (cases "stateStack s")
      case Nil
      then show ?thesis using 1(2) r by simp
    next
      case (Cons f fs)
      show ?thesis
      proof (cases "ntype (node f) = ''Program'' \<and> fdone f")
        case True
        then show ?thesis using 1(2) r Cons by auto
      next
        case nd: False
        show ?thesis
        proof (cases "paused' s")
          case True
          then show ?thesis using 1(2) r Cons nd by auto
        next
          case False
          show ?thesis
          proof (cases "tryStep H s f")
            case (Ret nx s1)
            show ?thesis
            proof (cases "nend (node f) = 0")
              case True
              then have "step H (push nx s1) = Some r" using 1(2) Cons nd False Ret by auto
              from 1(1)[OF this] r show ?thesis by blast
            next
              case ne: False
              then show ?thesis using 1(2) r Cons nd False Ret by auto
            qed
          next
            case (Throw e s1)
            then show ?thesis using 1(2) r Cons nd False by auto
          next
            case Diverge
            then show ?thesis using 1(2) Cons nd False by auto
          qed
        qed
      qed
    qed
  qed
qed

lemma run_true_stuck:
  assumes "run H s = Some r"
  shows "\<forall>s' f fs. r = Ret True s' \<and> stateStack s' = f # fs
            \<and> \<not> (ntype (node f) = ''Program'' \<and> fdone f) \<longrightarrow> stepUntilFalse H s = None"
  using assms
proof (induction rule: run.raw_induct[rotated 1, consumes 1])
  case (1 run H s r)
  show ?case
  proof (intro allI impI)
    fix s' f fs
    assume a: "r = Ret True s' \<and> stateStack s' = f # fs
               \<and> \<not> (ntype (node f) = ''Program'' \<and> fdone f)"
    show "stepUntilFalse H s = None"
    proof (cases "paused' s")
      case True
      then have "s' = s" using 1(2) a by simp
      then have "step H s = Some (Ret True s)" using step_paused[OF True, of f fs H] a by simp
      then show ?thesis by (rule stepUntilFalse_stuck)
    next
      case False
      show ?thesis
      proof (cases "step H s")
        case None
        then show ?thesis by (subst stepUntilFalse.simps) simp
      next
        case (Some o1)
        show ?thesis
        proof (cases o1)
          case (Ret b s1)
          show ?thesis
          proof (cases b)
            case True
            then have "run H s1 = Some r" using 1(2) False Some Ret by simp
            from 1(1)[OF this] a have "stepUntilFalse H s1 = None" by blast
            then show ?thesis using Some Ret True by (subst stepUntilFalse.simps) simp
          next
            case bf: False
            then have "r = Ret (paused' s1) s1" using 1(2) False Some Ret by simp
            then have s1: "s1 = s'" using a by simp
            have "case stateStack s1 of [] \<Rightarrow> True | f # fs \<Rightarrow> ntype (node f) = ''Program'' \<and> fdone f"
              using step_false_shape[OF Some] Ret bf by blast
            then show ?thesis using a s1 by simp
          qed
        next
          case (Throw e s1)
          then show ?thesis using 1(2) a False Some by simp
        next
          case Diverge
          then show ?thesis using Some by (subst stepUntilFalse.simps) simp
        qed
      qed
    qed
  qed
qed

text \<open>
  C2, as the code has it. When the single call of \<open>run()\<close> does not suspend, calling
  \<open>step()\<close> until it returns false does the same: if \<open>run()\<close> returns false (the program
  ran to its end) the loop ends in the same state, so with the same \<open>value\<close>, the same
  objects and the same native and asynchronous invocations in the same order; if \<open>run()\<close>
  is left by an uncaught exception, the loop is left by the same exception in the same
  state. When \<open>run()\<close> returns true because an asynchronous call has paused the
  interpreter inside the program, the loop over \<open>step()\<close> does not end: every further call
  returns true and changes nothing.
\<close>

theorem run_stepUntilFalse:
  "(run H s = Some (Ret False s') \<longrightarrow> stepUntilFalse H s = Some (Ret () s'))
   \<and> (run H s = Some (Throw e s') \<longrightarrow> stepUntilFalse H s = Some (Throw e s'))
   \<and> (run H s = Some (Ret True s') \<and> stateStack s' = f # fs
        \<and> \<not> (ntype (node f) = ''Program'' \<and> fdone f) \<longrightarrow> stepUntilFalse H s = None)"
proof (intro conjI impI)
  assume "run H s = Some (Ret False s')"
  from run_false_stepUntilFalse[OF this] show "stepUntilFalse H s = Some (Ret () s')" by simp
next
  assume "run H s = Some (Throw e s')"
  from run_throw_stepUntilFalse[OF this] show "stepUntilFalse H s = Some (Throw e s')" by simp
next
  assume a: "run H s = Some (Ret True s') \<and> stateStack s' = f # fs
             \<and> \<not> (ntype (node f) = ''Program'' \<and> fdone f)"
  then have r: "run H s = Some (Ret True s')" by simp
  from run_true_stuck[OF r] a show "stepUntilFalse H s = None" by blast
qed

lemma nativeProgram_run: "returned (run plainHost (baseInterp nativeProgram)) = Some False"
  by code_simp

lemma nativeProgram_invocations:
  "map_option invocations (stateOf (run plainHost (baseInterp nativeProgram))) = Some [(10, Obj 0, [])]"
  by code_simp

lemma unboundProgram_run:
  "map_option thrownError (run plainHost (baseInterp unboundProgram))
     = Some (Some (HostThrow (HostError ''ReferenceError: zzz is not defined'')))"
  by code_simp

theorem run_stepUntilFalse_witness:
  "returned (run plainHost (baseInterp nativeProgram)) = Some False
   \<and> stepUntilFalse plainHost (baseInterp nativeProgram)
       = map_option (Ret ()) (stateOf (run plainHost (baseInterp nativeProgram)))
   \<and> map_option invocations (stateOf (stepUntilFalse plainHost (baseInterp nativeProgram)))
       = Some [(10, Obj 0, [])]
   \<and> map_option thrownError (run plainHost (baseInterp unboundProgram))
       = Some (Some (HostThrow (HostError ''ReferenceError: zzz is not defined'')))
   \<and> map_option thrownError (stepUntilFalse plainHost (baseInterp unboundProgram))
       = Some (Some (HostThrow (HostError ''ReferenceError: zzz is not defined'')))"
proof -
  obtain s' where r: "run plainHost (baseInterp nativeProgram) = Some (Ret False s')"
    using nativeProgram_run by (auto simp: returned_def split: option.splits outcome.splits)
  have a: "stepUntilFalse plainHost (baseInterp nativeProgram) = Some (Ret () s')"
    using run_stepUntilFalse [of plainHost "baseInterp nativeProgram" s'] r by blast
  have "\<exists>e t. run plainHost (baseInterp unboundProgram) = Some (Throw e t)"
  proof (cases "run plainHost (baseInterp unboundProgram)")
    case None
    then show ?thesis using unboundProgram_run by simp
  next
    case (Some z)
    then show ?thesis using unboundProgram_run by (cases z) (simp_all add: thrownError_def)
  qed
  then obtain e t where u: "run plainHost (baseInterp unboundProgram) = Some (Throw e t)" by blast
  have b: "stepUntilFalse plainHost (baseInterp unboundProgram) = Some (Throw e t)"
    using run_stepUntilFalse [of plainHost "baseInterp unboundProgram" t e] u by blast
  show ?thesis
    using r a u b nativeProgram_run nativeProgram_invocations unboundProgram_run
    by (simp add: stateOf_def thrownError_def)
qed

text \<open>
  The claim as stated fails for \<open>sleep();\<close>: the single call of \<open>run()\<close> returns (true,
  paused in the call), the loop over \<open>step()\<close> never returns.
\<close>

lemma asyncProgram_run: "returned (run plainHost (baseInterp asyncProgram)) = Some True"
  by code_simp

lemma asyncProgram_stack:
  "map_option (\<lambda>s. map (\<lambda>f. ntype (node f)) (stateStack s)) (stateOf (run plainHost (baseInterp asyncProgram)))
     = Some [''CallExpression'', ''ExpressionStatement'', ''Program'']"
  by code_simp

theorem run_stepUntilFalse_counterexample:
  "returned (run plainHost (baseInterp asyncProgram)) = Some True
   \<and> stepUntilFalse plainHost (baseInterp asyncProgram) = None"
proof -
  obtain s' where r: "run plainHost (baseInterp asyncProgram) = Some (Ret True s')"
    using asyncProgram_run by (auto simp: returned_def split: option.splits outcome.splits)
  then obtain f fs where st: "stateStack s' = f # fs" "ntype (node f) = ''CallExpression''"
    using asyncProgram_stack by (auto simp: stateOf_def map_eq_Cons_conv)
  have "stepUntilFalse plainHost (baseInterp asyncProgram) = None"
    using run_true_stuck[OF r] st by auto
  then show ?thesis using asyncProgram_run by simp
qed


section \<open>Properties of primitive values\<close>

lemma getPrototype_primitive:
  "isPrimitive v \<Longrightarrow> getPrototype s v = propRead (properties (getObj s (boxedConstructor s v))) ''prototype''"
  by (cases v) (simp_all add: isPrimitive_def getPrototype_def boxedConstructor_def)

lemma getProperty_loop_primitive:
  "isPrimitive v \<Longrightarrow> getProperty_loop (Suc k) H s v name =
     (if truthy (getPrototype s v) then getProperty_loop k H s (getPrototype s v) name
      else Ret Undefined s)"
  by (cases v) (simp_all add: isPrimitive_def Let_def)

lemma strictEq_Obj_right: "strictEq (Obj h) w = (w = Obj h)"
  by (cases w) auto

lemma getPrototype_Obj: "getPrototype s (Obj h) = proto (getObj s h)"
  by (simp add: getPrototype_def protoField_def)

lemma protoChain_falsy: "protoChain k s w = Some hs \<Longrightarrow> \<not> truthy w \<Longrightarrow> hs = []"
  by (cases k; cases w) (auto split: if_splits)

lemma protoChain_truthy:
  "protoChain k s w = Some hs \<Longrightarrow> truthy w \<Longrightarrow>
     \<exists>h j hs'. w = Obj h \<and> k = Suc j \<and> hs = h # hs' \<and> protoChain j s (proto (getObj s h)) = Some hs'"
  by (cases k; cases w) (auto split: if_splits)

text \<open>
  The loop of \<open>getProperty\<close>, started at an object or at the end of a chain with at least
  as much fuel as the chain has links, returns what the first object of the chain with
  the property gives; and the loop of \<open>isa\<close> finds a prototype exactly when it is one of
  the objects of the chain.
\<close>

lemma getProperty_loop_chain:
  "protoChain k s w = Some hs \<Longrightarrow> k \<le> k' \<Longrightarrow> truthy w \<Longrightarrow>
     getProperty_loop k' H s w name = lookupOnChain H s hs name"
proof (induction k arbitrary: k' w hs)
  case 0
  then show ?case by simp
next
  case (Suc k)
  obtain h j hs' where w: "w = Obj h" "hs = h # hs'" "protoChain k s (proto (getObj s h)) = Some hs'"
    using protoChain_truthy[OF Suc.prems(1) Suc.prems(3)] by auto
  obtain j' where k': "k' = Suc j'" "k \<le> j'" using Suc.prems(2) by (cases k') auto
  show ?case
  proof (cases "propIn name (properties (getObj s h))")
    case True
    then show ?thesis unfolding w k' by (simp add: lookupOnChain_def Let_def)
  next
    case False
    have rest: "lookupOnChain H s (h # hs') name = lookupOnChain H s hs' name"
      using False by (simp add: lookupOnChain_def)
    show ?thesis
    proof (cases "truthy (proto (getObj s h))")
      case True
      from Suc.IH[OF w(3) k'(2) True]
      show ?thesis unfolding w k' using False rest True by (simp add: Let_def getPrototype_Obj)
    next
      case nt: False
      have "hs' = []" by (rule protoChain_falsy[OF w(3) nt])
      then show ?thesis unfolding w k' using False nt
        by (simp add: Let_def getPrototype_Obj lookupOnChain_def)
    qed
  qed
qed

lemma isa_loop_chain:
  "protoChain k s w = Some hs \<Longrightarrow> k \<le> k' \<Longrightarrow>
     isa_loop k' s w p = Some (list_ex (\<lambda>h. p = Obj h) hs)"
proof (induction k arbitrary: k' w hs)
  case 0
  then show ?case by simp
next
  case (Suc k)
  obtain j' where k': "k' = Suc j'" "k \<le> j'" using Suc.prems(2) by (cases k') auto
  show ?case
  proof (cases "truthy w")
    case False
    have "hs = []" by (rule protoChain_falsy[OF Suc.prems(1) False])
    then show ?thesis unfolding k' using False by simp
  next
    case True
    obtain h j hs' where w: "w = Obj h" "hs = h # hs'" "protoChain k s (proto (getObj s h)) = Some hs'"
      using protoChain_truthy[OF Suc.prems(1) True] by auto
    from Suc.IH[OF w(3) k'(2)]
    show ?thesis unfolding w k' by (auto simp: strictEq_Obj_right protoField_def)
  qed
qed

lemma protoChain_nonzero: "protoChain k s w = Some hs \<Longrightarrow> 0 < k"
  by (cases k) auto

text \<open>
  C10, as the code has it. On a primitive value (boolean, number or string) \<open>hasProperty\<close>
  throws the host TypeError "Primitive data type has no properties", for every name and
  in every state. \<open>getProperty\<close> on the same value returns, provided the prototype chain
  of the matching built-in prototype ends (\<open>hs\<close> are its objects), but it does not always
  walk that chain: when \<open>String.prototype\<close> is on the chain, as for every string, the name
  \<open>length\<close> gives the number of characters and an index below it gives the character,
  whatever the chain defines. For every other name, and for numbers and booleans, the
  result is what the first object of the chain that has the property gives: its value, or
  its getter flagged as one; and \<open>undefined\<close> when no object of the chain has it.
\<close>

theorem primitive_hasProperty_getProperty:
  assumes "isPrimitive v"
    and "protoChain (length (heap s) + 1) s (getPrototype s v) = Some hs"
  shows "hasProperty H s v n
           = Throw (HostThrow (HostTypeError ''Primitive data type has no properties'')) s
    \<and> getProperty H s v n =
         (if isStringLike s v hs \<and> ToString H (heap s) n = ''length''
          then Ret (Num (Fin (of_nat (length (ToString H (heap s) v))))) s
          else case (if isStringLike s v hs
                     then charIndex (ToString H (heap s) n) (ToString H (heap s) v) else None) of
                 Some i \<Rightarrow> Ret (Str [ToString H (heap s) v ! i]) s
               | None \<Rightarrow> lookupOnChain H s hs (ToString H (heap s) n))"
proof -
  let ?name = "ToString H (heap s) n"
  let ?x = "ToString H (heap s) v"
  let ?p = "getPrototype s v"
  let ?pS = "propRead (properties (getObj s (STRING s))) ''prototype''"
  have nn: "v \<noteq> Undefined" "v \<noteq> Null" "\<not> isObject v"
    using assms(1) by (auto simp: isPrimitive_def isObject_def split: val.splits)
  have h: "hasProperty H s v n = Throw (HostThrow (HostTypeError ''Primitive data type has no properties'')) s"
    using nn by (simp add: hasProperty_def)
  have cf: "chainFuel s = Suc (length (heap s) + 1)" by (simp add: chainFuel_def)
  have loop: "getProperty_loop (chainFuel s) H s v ?name = lookupOnChain H s hs ?name"
  proof (cases "truthy ?p")
    case True
    have "getProperty_loop (length (heap s) + 1) H s ?p ?name = lookupOnChain H s hs ?name"
      by (rule getProperty_loop_chain[OF assms(2) _ True]) simp
    then show ?thesis unfolding cf getProperty_loop_primitive[OF assms(1)] using True by simp
  next
    case False
    have "hs = []" by (rule protoChain_falsy[OF assms(2) False])
    then show ?thesis unfolding cf getProperty_loop_primitive[OF assms(1)] using False
      by (simp add: lookupOnChain_def)
  qed
  have "isa_loop (chainFuel s) s ?p ?pS = Some (list_ex (\<lambda>h. ?pS = Obj h) hs)"
    by (rule isa_loop_chain[OF assms(2)]) (simp add: chainFuel_def)
  then have isa: "isa s v (STRING s) = Some (isStringLike s v hs)"
    using nn by (auto simp: isa_def Let_def isStringLike_def)
  have g: "getProperty H s v n =
         (if isStringLike s v hs \<and> ?name = ''length'' then Ret (Num (Fin (of_nat (length ?x)))) s
          else case (if isStringLike s v hs then charIndex ?name ?x else None) of
                 Some i \<Rightarrow> Ret (Str [?x ! i]) s
               | None \<Rightarrow> lookupOnChain H s hs ?name)"
  proof (cases "?name = ''length''")
    case True
    have "charIndex ''length'' ?x = None" by (simp add: charIndex_def)
    then show ?thesis unfolding getProperty_def Let_def isa loop using nn True by simp
  next
    case False
    show ?thesis unfolding getProperty_def Let_def isa loop using nn False
      by (auto simp: charIndex_def split: list.splits option.splits)
  qed
  show ?thesis using h g by (rule conjI)
qed

lemma numberChain:
  "protoChain (length (heap (baseInterp asyncProgram)) + 1) (baseInterp asyncProgram)
     (getPrototype (baseInterp asyncProgram) (Num (Fin 5))) = Some [9, 1]"
  by code_simp

theorem primitive_hasProperty_getProperty_witness:
  "hasProperty plainHost (baseInterp asyncProgram) (Num (Fin 5)) (Str ''toString'')
     = Throw (HostThrow (HostTypeError ''Primitive data type has no properties'')) (baseInterp asyncProgram)
   \<and> getProperty plainHost (baseInterp asyncProgram) (Num (Fin 5)) (Str ''toString'')
     = Ret (Obj 21) (baseInterp asyncProgram)
   \<and> map_of (properties (getObj (baseInterp asyncProgram) 9)) ''toString'' = None"
proof -
  have a: "isPrimitive (Num (Fin 5))" by (simp add: isPrimitive_def)
  have b: "isStringLike (baseInterp asyncProgram) (Num (Fin 5)) [9, 1] = False" by code_simp
  have c: "returnedValue (lookupOnChain plainHost (baseInterp asyncProgram) [9, 1] ''toString'') = Some (Obj 21)"
    by code_simp
  have d: "truthy (tableRead (getter (getObj (baseInterp asyncProgram) 1)) ''toString'') = False"
    by code_simp
  have e: "map_of (properties (getObj (baseInterp asyncProgram) 9)) ''toString'' = None" by code_simp
  have f: "map_of (properties (getObj (baseInterp asyncProgram) 1)) ''toString'' \<noteq> None" by code_simp
  have l: "lookupOnChain plainHost (baseInterp asyncProgram) [9, 1] ''toString''
             = Ret (Obj 21) (baseInterp asyncProgram)"
    using c d e f by (auto simp: lookupOnChain_def propIn_def returnedValue_def)
  note t = primitive_hasProperty_getProperty [OF a numberChain, of plainHost "Str ''toString''"]
  have h: "hasProperty plainHost (baseInterp asyncProgram) (Num (Fin 5)) (Str ''toString'')
     = Throw (HostThrow (HostTypeError ''Primitive data type has no properties'')) (baseInterp asyncProgram)"
    using t by (rule conjunct1)
  have g: "getProperty plainHost (baseInterp asyncProgram) (Num (Fin 5)) (Str ''toString'')
     = Ret (Obj 21) (baseInterp asyncProgram)"
    using t[THEN conjunct2] b l by simp
  show ?thesis using h g e by blast
qed

text \<open>
  The claim as stated fails for the string \<open>abc\<close> and the name \<open>length\<close>: \<open>getProperty\<close>
  returns 3, which is not read off the chain of \<open>String.prototype\<close>, where no object has
  a property of that name (walking the chain gives \<open>undefined\<close>). The same holds for the
  name \<open>1\<close>, which gives the character \<open>b\<close>.
\<close>

theorem primitive_getProperty_counterexample:
  "protoChain (length (heap (baseInterp asyncProgram)) + 1) (baseInterp asyncProgram)
     (getPrototype (baseInterp asyncProgram) (Str ''abc'')) = Some [7, 1]
   \<and> returnedValue (lookupOnChain plainHost (baseInterp asyncProgram) [7, 1] ''length'') = Some Undefined
   \<and> returnedValue (getProperty plainHost (baseInterp asyncProgram) (Str ''abc'') (Str ''length''))
       = Some (Num (Fin 3))
   \<and> returnedValue (lookupOnChain plainHost (baseInterp asyncProgram) [7, 1] ''1'') = Some Undefined
   \<and> returnedValue (getProperty plainHost (baseInterp asyncProgram) (Str ''abc'') (Str ''1''))
       = Some (Str ''b'')"
  by code_simp

section \<open>Assignment to a variable\<close>

lemma putObj_same: "h < length (heap s) \<Longrightarrow> putObj s h (getObj s h) = s"
  by (simp add: putObj_def getObj_def)

lemma strictEq_Obj [simp]: "strictEq (Obj a) v = (v = Obj a)"
  by (cases v) auto









section \<open>Deleting a property that is not configurable\<close>

lemma getObj_pop [simp]: "getObj (pop s) h = getObj s h"
  by (simp add: getObj_def pop_def)

lemma heap_pop [simp]: "heap (pop s) = heap s"
  by (simp add: pop_def)

lemma heap_storeTop: "storeTop (Ret v s) = r \<Longrightarrow> map_option heap (outcomeState r) = Some (heap s)"
  by (auto simp: storeTop_def setTopValue_def outcomeState_def split: list.splits)

text \<open>
  C5. The step of a \<open>delete\<close> whose operand is a reference to a property that is not
  configurable. When the interpreter's code is strict-mode code the native \<open>delete\<close>
  throws, and the step yields false in a non-strict scope and throws a guest TypeError in
  a strict scope, as the claim says. When it is sloppy-mode code, as in the file, the
  native \<open>delete\<close> fails silently and the step yields true in both modes. In every case
  the store is unchanged, so the property keeps its value and its attributes.
\<close>

theorem delete_notConfigurable:
  assumes "done' state" and "fvalue state = Reference b n"
    and "b = Obj h \<or> (b = SCOPE_REFERENCE \<and> h = scope state)"
    and "h < length (heap s)"
    and "map_of (properties (getObj s h)) (ToString H (heap s) n) = Some p"
    and "\<not> configurable p"
  shows "stepUnaryExpression H s state ''delete'' argument =
           (if \<not> hostStrict H then storeTop (Ret (Bool True) (pop s))
            else if strict (getObj s (scope state)) then
              Throw (GuestError TYPE_ERROR
                 (''Cannot delete property '' @ [CHR 0x27] @ ToString H (heap s) n @ [CHR 0x27]
                  @ '' of '' @ [CHR 0x27] @ ToString H (heap s) (Obj h) @ [CHR 0x27])) (pop s)
            else storeTop (Ret (Bool False) (pop s)))
         \<and> map_option heap (outcomeState (stepUnaryExpression H s state ''delete'' argument)) = Some (heap s)"
proof -
  have ob: "(if b = SCOPE_REFERENCE then Obj (scope state) else b) = Obj h"
    using assms(3) by auto
  have del: "propDelete (hostStrict H) (properties (getObj s h)) (ToString H (heap s) n) =
             (if hostStrict H then NTypeError else NOk (properties (getObj s h)))"
    using assms(5,6) by (simp add: propDelete_def)
  have same: "putObj (pop s) h ((getObj s h)\<lparr>properties := properties (getObj s h)\<rparr>) = pop s"
    using putObj_same[of h "pop s"] assms(4) by simp
  have eq: "stepUnaryExpression H s state ''delete'' argument =
           (if \<not> hostStrict H then storeTop (Ret (Bool True) (pop s))
            else if strict (getObj s (scope state)) then
              Throw (GuestError TYPE_ERROR
                 (''Cannot delete property '' @ [CHR 0x27] @ ToString H (heap s) n @ [CHR 0x27]
                  @ '' of '' @ [CHR 0x27] @ ToString H (heap s) (Obj h) @ [CHR 0x27])) (pop s)
            else storeTop (Ret (Bool False) (pop s)))"
    unfolding stepUnaryExpression_def Let_def using assms(1,2) ob del same by simp
  have hp: "map_option heap (outcomeState (stepUnaryExpression H s state ''delete'' argument)) = Some (heap s)"
    unfolding eq using heap_storeTop[of _ "pop s"] by (simp add: outcomeState_def)
  show ?thesis using eq hp by blast
qed

text \<open>The example state is the one that \<open>delete x;\<close> reaches in four steps.\<close>

lemma deleteState_reached:
  "map_option stateStack (stateOf (stepTimes plainHost 3 (baseInterp deleteProgram)))
     = Some (stateStack deleteState)"
  by code_simp

theorem delete_notConfigurable_witness:
  "stepUnaryExpression plainHost deleteState deleteFrame ''delete'' (Identifier 8 ''x'')
     = storeTop (Ret (Bool True) (pop deleteState))
   \<and> map_option heap (outcomeState
        (stepUnaryExpression plainHost deleteState deleteFrame ''delete'' (Identifier 8 ''x'')))
     = Some (heap deleteState)"
proof -
  have a: "done' deleteFrame" by code_simp
  have b: "fvalue deleteFrame = Reference SCOPE_REFERENCE (Str ''x'')" by code_simp
  have c: "SCOPE_REFERENCE = Obj 0 \<or> (SCOPE_REFERENCE = SCOPE_REFERENCE \<and> 0 = scope deleteFrame)"
    by code_simp
  have d: "0 < length (heap deleteState)" by code_simp
  have e: "map_of (properties (getObj deleteState 0)) (ToString plainHost (heap deleteState) (Str ''x''))
             = Some \<lparr>pvalue = Num (Fin 1), configurable = False, enumerable = True, writable = True\<rparr>"
    by code_simp
  have f: "\<not> configurable \<lparr>pvalue = Num (Fin 1), configurable = False, enumerable = True, writable = True\<rparr>"
    by simp
  have g: "\<not> hostStrict plainHost" by code_simp
  note t = delete_notConfigurable [OF a b c d e f, of "Identifier 8 ''x''"]
  have eq: "stepUnaryExpression plainHost deleteState deleteFrame ''delete'' (Identifier 8 ''x'')
     = storeTop (Ret (Bool True) (pop deleteState))"
    using t [THEN conjunct1] g by (simp only: simp_thms if_True)
  show ?thesis using eq t [THEN conjunct2] by (rule conjI)
qed

text \<open>
  The whole program \<open>delete x;\<close> with the interpreter's code as the file has it: its
  value is \<open>true\<close>, and \<open>x\<close> is still there. With the interpreter's code taken as
  strict-mode code the value would be \<open>false\<close>.
\<close>

lemma delete_x_value:
  "map_option ivalue (stateOf (run plainHost (baseInterp deleteProgram))) = Some (Bool True)
   \<and> map_option ivalue (stateOf (run strictHost (baseInterp deleteProgram))) = Some (Bool False)
   \<and> globalBinding ''x'' (the (run plainHost (baseInterp deleteProgram)))
       = Some \<lparr>pvalue = Num (Fin 1), configurable = False, enumerable = True, writable = True\<rparr>"
  by code_simp


end
